theory Spec2Isabelle
  imports Complex_Main
begin

section \<open>Conventions\<close>

text \<open>
  The development follows the three source files of the viewer: the camera wrapper, the
  picking ray caster and the grid (\<^verbatim>\<open>src/camera.js\<close>), the measurement modes
  (\<^verbatim>\<open>src/cad_tools/measure.js\<close>) and the tool dispatcher (\<^verbatim>\<open>src/cad_tools/tools.js\<close>).

  JavaScript numbers are idealised as real numbers: a finite result is the exact real
  one, so the rounding of doubles, their overflow to \<^verbatim>\<open>Infinity\<close> and their underflow
  to zero are not modelled. Every result about numbers below is a result under real
  arithmetic. Strings are strings of bytes (UTF-8).
  An exception is a value: a method that can throw returns an \<open>outcome\<close>, which keeps
  the state the object is left in when the exception escapes. \<open>null\<close> and
  \<open>undefined\<close> are \<open>None\<close>.
\<close>

datatype error = TypeError

datatype 's outcome = Done 's | Throws error 's

fun state_of :: "'s outcome \<Rightarrow> 's" where
  "state_of (Done s) = s"
| "state_of (Throws e s) = s"

fun throws :: "'s outcome \<Rightarrow> bool" where
  "throws (Done s) = False"
| "throws (Throws e s) = True"

text \<open>Sequencing of statements: the rest runs only if the first part did not throw.\<close>

fun and_then :: "'s outcome \<Rightarrow> ('s \<Rightarrow> 's outcome) \<Rightarrow> 's outcome" where
  "and_then (Done s) f = f s"
| "and_then (Throws e s) f = Throws e s"

section \<open>Raycaster: topology and geometry filters\<close>

text \<open>
  \<^verbatim>\<open>TopoFilter\<close> and \<^verbatim>\<open>GeomFilter\<close> are tables of constants; the entry
  \<^verbatim>\<open>none\<close> of each is \<^verbatim>\<open>null\<close>, the others are strings.
\<close>

definition TopoFilter_none :: "string option" where "TopoFilter_none = None"
definition TopoFilter_vertex :: "string option" where "TopoFilter_vertex = Some ''vertex''"
definition TopoFilter_edge :: "string option" where "TopoFilter_edge = Some ''edge''"
definition TopoFilter_face :: "string option" where "TopoFilter_face = Some ''face''"
definition TopoFilter_solid :: "string option" where "TopoFilter_solid = Some ''solid''"

definition GeomFilter_none :: "string option" where "GeomFilter_none = None"
definition GeomFilter_plane :: "string option" where "GeomFilter_plane = Some ''plane''"
definition GeomFilter_line :: "string option" where "GeomFilter_line = Some ''line''"
definition GeomFilter_circle :: "string option" where "GeomFilter_circle = Some ''circle''"

text \<open>
  What the ray caster reads of an intersection record of the rendering library:
  \<^verbatim>\<open>object.object.material.visible\<close>, \<^verbatim>\<open>object.distanceToRay\<close> and
  \<^verbatim>\<open>object.object.parent\<close> with its \<^verbatim>\<open>geomtype.topo\<close> and
  \<^verbatim>\<open>geomtype.geomtype\<close>.
\<close>

record pickGroup =
  topo :: "string option"
  geom :: "string option"

record intersection =
  visible :: bool
  distanceToRay :: "real option"
  parent :: "pickGroup option"

record raycaster =
  mouseMoved :: bool
  topoFilter :: "string option list"
  geomFilter :: "string option list"

text \<open>The constructor's filters: \<^verbatim>\<open>{ topoFilter: [TopoFilter.none], geomFilter: [GeomFilter.none] }\<close>.\<close>

definition Raycaster :: raycaster where
  "Raycaster = \<lparr>mouseMoved = False, topoFilter = [TopoFilter_none], geomFilter = [GeomFilter_none]\<rparr>"

text \<open>\<^verbatim>\<open>Array.prototype.includes\<close> on a filter list.\<close>

definition array_includes :: "'a list \<Rightarrow> 'a \<Rightarrow> bool" where
  "array_includes xs x = (x \<in> set xs)"

text \<open>
  The body of the loop of \<^verbatim>\<open>getValidIntersectedObjs\<close> for one intersection: whether
  the object is pushed onto \<^verbatim>\<open>validObjs\<close>. Each \<^verbatim>\<open>continue\<close> is a \<open>False\<close>.
\<close>

definition examined :: "intersection \<Rightarrow> bool" where
  "examined object =
     (visible object \<and>
      (case distanceToRay object of None \<Rightarrow> True | Some d \<Rightarrow> d < 0.03))"

definition pushed :: "raycaster \<Rightarrow> intersection \<Rightarrow> bool" where
  "pushed rc object =
     (if examined object then
        (case parent object of
           None \<Rightarrow> False
         | Some objectGroup \<Rightarrow>
             (let valid = (array_includes (topoFilter rc) TopoFilter_solid
                           \<or> array_includes (topoFilter rc) TopoFilter_none
                           \<or> array_includes (topoFilter rc) (topo objectGroup))
              in if \<not> valid then False
                 else
                   (let valid = (\<not> array_includes (topoFilter rc) TopoFilter_solid
                                 \<and> (array_includes (geomFilter rc) GeomFilter_none
                                      \<or> array_includes (geomFilter rc) (geom objectGroup)))
                    in valid)))
      else False)"

text \<open>
  The loop, with \<^verbatim>\<open>validObjs\<close> as accumulator; \<open>objects\<close> is the result of
  \<^verbatim>\<open>raycaster.intersectObjects\<close>, sorted by the library.
\<close>

fun collectValid :: "raycaster \<Rightarrow> intersection list \<Rightarrow> intersection list \<Rightarrow> intersection list" where
  "collectValid rc [] validObjs = validObjs"
| "collectValid rc (object # objects) validObjs =
     (if pushed rc object then collectValid rc objects (validObjs @ [object])
      else collectValid rc objects validObjs)"

definition getValidIntersectedObjs :: "raycaster \<Rightarrow> intersection list \<Rightarrow> intersection list" where
  "getValidIntersectedObjs rc objects = (if mouseMoved rc then collectValid rc objects [] else [])"

text \<open>
  The two filters as the specification states them: the topology filter contains none,
  solid or the topology of the object, and the geometry filter contains none or the
  geometry sub-type of the object.
\<close>

definition allowedByFilters :: "raycaster \<Rightarrow> pickGroup \<Rightarrow> bool" where
  "allowedByFilters rc g =
     ((array_includes (topoFilter rc) TopoFilter_none
       \<or> array_includes (topoFilter rc) TopoFilter_solid
       \<or> array_includes (topoFilter rc) (topo g))
      \<and> (array_includes (geomFilter rc) GeomFilter_none
           \<or> array_includes (geomFilter rc) (geom g)))"

text \<open>A ray caster that picks solids, and a visible plane face hit by the ray.\<close>

definition solidPicker :: raycaster where
  "solidPicker = \<lparr>mouseMoved = True, topoFilter = [TopoFilter_solid], geomFilter = [GeomFilter_none]\<rparr>"

definition planeFace :: pickGroup where
  "planeFace = \<lparr>topo = Some ''face'', geom = Some ''plane''\<rparr>"

definition hitFace :: intersection where
  "hitFace = \<lparr>visible = True, distanceToRay = None, parent = Some planeFace\<rparr>"

section \<open>Measurement modes\<close>

subsection \<open>Data\<close>

type_synonym vec3 = "real \<times> real \<times> real"

text \<open>\<^verbatim>\<open>new Vector3(...xs)\<close>: a missing coordinate is 0, further elements are ignored.\<close>

fun Vector3 :: "real list \<Rightarrow> vec3" where
  "Vector3 [] = (0, 0, 0)"
| "Vector3 [a] = (a, 0, 0)"
| "Vector3 [a, b] = (a, b, 0)"
| "Vector3 (a # b # c # rest) = (a, b, c)"

text \<open>
  A picked object group of the viewer. \<open>oid\<close> stands for the identity of the
  JavaScript object, so that equality of records is the reference equality that
  \<^verbatim>\<open>includes\<close> and \<^verbatim>\<open>indexOf\<close> test; \<open>center\<close> is
  \<^verbatim>\<open>children[0].geometry.boundingSphere.center\<close>.
\<close>

record objectGroup =
  oid :: nat
  name :: string
  center :: vec3

text \<open>
  The overlay objects added to the scene, by their constructor arguments: the two
  points (and the centre of the arc), the line width, the colour and the two arrow flags.
\<close>

datatype overlay =
  DistanceLineArrow vec3 vec3 real nat bool bool
| CurvedLineArrow vec3 vec3 vec3 real nat bool bool

text \<open>
  \<^verbatim>\<open>initialize\<close> starts with \<^verbatim>\<open>this.point1.clone().sub(this.point2.clone())\<close>,
  and the constructor of the curved arrow with \<^verbatim>\<open>point1.clone()\<close>: a point that is
  \<^verbatim>\<open>null\<close> or \<^verbatim>\<open>undefined\<close> is a \<^verbatim>\<open>TypeError\<close>.
\<close>

definition new_DistanceLineArrow ::
    "vec3 option \<Rightarrow> vec3 option \<Rightarrow> real \<Rightarrow> nat \<Rightarrow> bool \<Rightarrow> bool \<Rightarrow> error + overlay" where
  "new_DistanceLineArrow p1 p2 linewidth color arrowStart arrowEnd =
     (case p1 of
        None \<Rightarrow> Inl TypeError
      | Some a \<Rightarrow>
          (case p2 of
             None \<Rightarrow> Inl TypeError
           | Some b \<Rightarrow> Inr (DistanceLineArrow a b linewidth color arrowStart arrowEnd)))"

definition new_CurvedLineArrow ::
    "vec3 option \<Rightarrow> vec3 option \<Rightarrow> vec3 \<Rightarrow> real \<Rightarrow> nat \<Rightarrow> bool \<Rightarrow> bool \<Rightarrow> error + overlay" where
  "new_CurvedLineArrow p1 p2 arcCenter linewidth color arrowStart arrowEnd =
     (case p1 of
        None \<Rightarrow> Inl TypeError
      | Some a \<Rightarrow>
          (case p2 of
             None \<Rightarrow> Inl TypeError
           | Some b \<Rightarrow> Inr (CurvedLineArrow a b arcCenter linewidth color arrowStart arrowEnd)))"

text \<open>
  The backend's response, as far as the handlers read it, and the object a handler
  stores in \<^verbatim>\<open>responseData\<close>. A property that is absent is \<open>None\<close>.
\<close>

record response =
  r_distance :: "real option"
  r_angle :: "real option"
  r_point1 :: "real list option"
  r_point2 :: "real list option"
  r_plane_normal :: "real list option"
  r_vertex_coords :: "real list option"
  r_length :: "real option"
  r_area :: "real option"
  r_volume :: "real option"
  r_center :: "real list option"

record measureData =
  d_distance :: "real option"
  d_angle :: "real option"
  d_point1 :: "vec3 option"
  d_point2 :: "vec3 option"
  d_planeNormal :: "vec3 option"
  d_vertex_coords :: "vec3 option"
  d_length :: "real option"
  d_area :: "real option"
  d_volume :: "real option"
  d_center :: "vec3 option"

definition emptyData :: measureData where
  "emptyData = \<lparr>d_distance = None, d_angle = None, d_point1 = None, d_point2 = None,
     d_planeNormal = None, d_vertex_coords = None, d_length = None, d_area = None,
     d_volume = None, d_center = None\<rparr>"

text \<open>Truthiness of an optional number and of an optional array (an array is always truthy).\<close>

definition truthy_num :: "real option \<Rightarrow> bool" where
  "truthy_num v = (case v of None \<Rightarrow> False | Some x \<Rightarrow> x \<noteq> 0)"

definition truthy_array :: "'a list option \<Rightarrow> bool" where
  "truthy_array v = (case v of None \<Rightarrow> False | Some xs \<Rightarrow> True)"

text \<open>
  The state of a \<^verbatim>\<open>Measurement\<close> object. Of the panel (a DOM element) the model
  keeps \<^verbatim>\<open>style.display\<close>; of the scene its children; of the viewer the list last
  passed to \<^verbatim>\<open>checkChanges\<close>; \<open>promises\<close> counts the promises created by
  \<^verbatim>\<open>_updateMeasurement\<close> that wait for the backend. The texts and the position
  of the panel, and the highlights of the object groups, are not modelled.
\<close>

record measurement =
  selectedShapes :: "objectGroup list"
  point1 :: "vec3 option"
  point2 :: "vec3 option"
  contextEnabled :: bool
  scene :: "overlay list"
  panelDisplay :: string
  panelCenter :: "vec3 option"
  responseData :: "measureData option"
  selectedShapeIDs :: "string list"
  promises :: nat

text \<open>The three concrete classes; a method of the abstract class dispatches on the mode.\<close>

datatype mode = DistanceMeasurement | PropertiesMeasurement | AngleMeasurement

definition DEBUG :: bool where
  "DEBUG = True"

text \<open>The constructor; \<open>display\<close> is the initial \<^verbatim>\<open>style.display\<close> of the panel.\<close>

definition Measurement :: "string \<Rightarrow> measurement" where
  "Measurement display =
     \<lparr>selectedShapes = [], point1 = None, point2 = None, contextEnabled = False,
      scene = [], panelDisplay = display, panelCenter = None, responseData = None,
      selectedShapeIDs = [], promises = 0\<rparr>"

fun getMaxObjSelected :: "mode \<Rightarrow> nat" where
  "getMaxObjSelected DistanceMeasurement = 2"
| "getMaxObjSelected PropertiesMeasurement = 1"
| "getMaxObjSelected AngleMeasurement = 2"

subsection \<open>Arrays and strings\<close>

text \<open>\<^verbatim>\<open>indexOf\<close> (\<open>-1\<close> when absent), \<^verbatim>\<open>splice(start, 1)\<close> and \<^verbatim>\<open>pop\<close>.\<close>

fun indexOf :: "'a list \<Rightarrow> 'a \<Rightarrow> int" where
  "indexOf [] x = -1"
| "indexOf (y # ys) x =
     (if y = x then 0 else (let i = indexOf ys x in if i < 0 then -1 else i + 1))"

definition splice1 :: "'a list \<Rightarrow> int \<Rightarrow> 'a list" where
  "splice1 xs start =
     (let len = int (length xs);
          actualStart = (if start < 0 then max (len + start) 0 else min start len)
      in take (nat actualStart) xs @ drop (nat actualStart + 1) xs)"

definition pop :: "'a list \<Rightarrow> 'a option \<times> 'a list" where
  "pop xs = (if xs = [] then (None, []) else (Some (last xs), butlast xs))"

definition replaceAll :: "string \<Rightarrow> char \<Rightarrow> char \<Rightarrow> string" where
  "replaceAll s a b = map (\<lambda>c. if c = a then b else c) s"

text \<open>
  \<^verbatim>\<open>name.match(/.*\|.*kind/)\<close>: somewhere in the name a bar, and after it, on the same
  line, the word. The dot does not match a line terminator: line feed, carriage return,
  U+2028 and U+2029 (in UTF-8 the bytes E2 80 A8 and E2 80 A9).
\<close>

definition lineTerminatorAt :: "string \<Rightarrow> bool" where
  "lineTerminatorAt s =
     (take 1 s = [CHR 0x0A] \<or> take 1 s = [CHR 0x0D]
      \<or> take 3 s = [CHR 0xE2, CHR 0x80, CHR 0xA8]
      \<or> take 3 s = [CHR 0xE2, CHR 0x80, CHR 0xA9])"

fun matchesRest :: "string \<Rightarrow> string \<Rightarrow> bool" where
  "matchesRest kind [] = (kind = [])"
| "matchesRest kind (c # cs) =
     (take (length kind) (c # cs) = kind
      \<or> (\<not> lineTerminatorAt (c # cs) \<and> matchesRest kind cs))"

fun matchesKind :: "string \<Rightarrow> string \<Rightarrow> bool" where
  "matchesKind kind [] = False"
| "matchesKind kind (c # cs) = ((c = CHR ''|'' \<and> matchesRest kind cs) \<or> matchesKind kind cs)"

subsection \<open>Methods of the abstract class and of the three modes\<close>

definition enableContext :: "measurement \<Rightarrow> measurement" where
  "enableContext st = st\<lparr>contextEnabled := True, panelCenter := Some (1, 0, 0)\<rparr>"

definition hideMeasurement :: "measurement \<Rightarrow> measurement" where
  "hideMeasurement st = st\<lparr>responseData := None, panelDisplay := ''none'', scene := []\<rparr>"

definition disableContext :: "measurement \<Rightarrow> measurement" where
  "disableContext st =
     (hideMeasurement (st\<lparr>contextEnabled := False, selectedShapes := []\<rparr>))\<lparr>selectedShapeIDs := []\<rparr>"

text \<open>\<^verbatim>\<open>_getPoints\<close>, the same in the distance and in the angle mode.\<close>

definition getPoints :: "measurement \<Rightarrow> measurement outcome" where
  "getPoints st =
     (if DEBUG then
        (case selectedShapes st of
           [] \<Rightarrow> Throws TypeError st
         | [a] \<Rightarrow> Throws TypeError (st\<lparr>point1 := Some (center a)\<rparr>)
         | a # b # rest \<Rightarrow> Done (st\<lparr>point1 := Some (center a), point2 := Some (center b)\<rparr>))
      else
        (case responseData st of
           None \<Rightarrow> Throws TypeError st
         | Some d \<Rightarrow>
             (case d_point1 d of
                None \<Rightarrow> Throws TypeError st
              | Some p1 \<Rightarrow>
                  (case d_point2 d of
                     None \<Rightarrow> Throws TypeError (st\<lparr>point1 := Some p1\<rparr>)
                   | Some p2 \<Rightarrow> Done (st\<lparr>point1 := Some p1, point2 := Some p2\<rparr>)))))"

text \<open>
  \<^verbatim>\<open>_setMeasurementVals\<close>. The texts written into the panel are not modelled; what is
  kept are the points and every dereference of a value that can be \<^verbatim>\<open>null\<close> or
  \<^verbatim>\<open>undefined\<close>.
\<close>

fun setMeasurementVals :: "mode \<Rightarrow> measurement \<Rightarrow> measurement outcome" where
  "setMeasurementVals DistanceMeasurement st =
     and_then (getPoints st) (\<lambda>st.
       if DEBUG then Done st
       else (case responseData st of
               None \<Rightarrow> Throws TypeError st
             | Some d \<Rightarrow> (case d_distance d of None \<Rightarrow> Throws TypeError st | Some total' \<Rightarrow> Done st)))"
| "setMeasurementVals PropertiesMeasurement st =
     (case selectedShapes st of
        [] \<Rightarrow> Throws TypeError st
      | obj # rest \<Rightarrow>
          (let isVertex = matchesKind ''vertices'' (name obj);
               isLine = matchesKind ''edges'' (name obj);
               isFace = matchesKind ''faces'' (name obj);
               isVolume = matchesKind ''volumes'' (name obj)
           in if isVertex then
                (case responseData st of
                   None \<Rightarrow> Throws TypeError st
                 | Some d \<Rightarrow> (case d_vertex_coords d of None \<Rightarrow> Throws TypeError st | Some vertex \<Rightarrow> Done st))
              else if isLine \<or> isFace \<or> isVolume then
                (case responseData st of None \<Rightarrow> Throws TypeError st | Some d \<Rightarrow> Done st)
              else Done st))"
| "setMeasurementVals AngleMeasurement st = Done st"

definition middle :: "vec3 \<Rightarrow> vec3 \<Rightarrow> vec3" where
  "middle p q = (case p of (a, b, c) \<Rightarrow> case q of (d, e, f) \<Rightarrow>
     ((a + d) * 0.5, (b + e) * 0.5, (c + f) * 0.5))"

definition lineWidth :: real where
  "lineWidth = 0.0025"

text \<open>The connecting line from the panel to a point, the last step of every \<^verbatim>\<open>_makeLines\<close>.\<close>

definition addConnectingLine :: "vec3 option \<Rightarrow> measurement \<Rightarrow> measurement outcome" where
  "addConnectingLine middlePoint st =
     (case new_DistanceLineArrow (panelCenter st) middlePoint lineWidth 0x800080 False True of
        Inl e \<Rightarrow> Throws e st
      | Inr connectingLine \<Rightarrow> Done (st\<lparr>scene := scene st @ [connectingLine]\<rparr>))"

fun makeLines :: "mode \<Rightarrow> measurement \<Rightarrow> measurement outcome" where
  "makeLines DistanceMeasurement st =
     (case new_DistanceLineArrow (point1 st) (point2 st) (2 * lineWidth) 0x000000 True True of
        Inl e \<Rightarrow> Throws e st
      | Inr distanceLine \<Rightarrow>
          (let st = st\<lparr>scene := scene st @ [distanceLine]\<rparr>
           in addConnectingLine (Some (middle (the (point1 st)) (the (point2 st)))) st))"
| "makeLines PropertiesMeasurement st =
     (case responseData st of
        None \<Rightarrow> Throws TypeError st
      | Some d \<Rightarrow> addConnectingLine (d_center d) st)"
| "makeLines AngleMeasurement st =
     and_then (getPoints st) (\<lambda>st.
       case new_CurvedLineArrow (point1 st) (point2 st) (0, 0, 0) lineWidth 0x000000 True True of
         Inl e \<Rightarrow> Throws e st
       | Inr angleLine \<Rightarrow>
           (let st = st\<lparr>scene := scene st @ [angleLine]\<rparr>
            in addConnectingLine (Some (middle (the (point1 st)) (the (point2 st)))) st))"

text \<open>\<^verbatim>\<open>_movePanel\<close> starts with \<^verbatim>\<open>this.panelCenter.clone()\<close>; the rest places the panel.\<close>

definition movePanel :: "measurement \<Rightarrow> measurement outcome" where
  "movePanel st = (case panelCenter st of None \<Rightarrow> Throws TypeError st | Some worldCoord \<Rightarrow> Done st)"

definition updateMeasurement :: "mode \<Rightarrow> measurement \<Rightarrow> measurement outcome" where
  "updateMeasurement m st =
     (let ids = map (\<lambda>shape. replaceAll (name shape) (CHR ''|'') (CHR ''/'')) (selectedShapes st);
          st = st\<lparr>selectedShapeIDs := ids\<rparr>
      in if length (selectedShapes st) \<noteq> getMaxObjSelected m then Done (hideMeasurement st)
         else if DEBUG then
           and_then (setMeasurementVals m st) (\<lambda>st.
           and_then (makeLines m st) (\<lambda>st.
           movePanel (st\<lparr>panelDisplay := ''block''\<rparr>)))
         else Done (st\<lparr>promises := promises st + 1\<rparr>))"

definition removeLastSelectedObj :: "mode \<Rightarrow> measurement \<Rightarrow> measurement outcome" where
  "removeLastSelectedObj m st =
     (case pop (selectedShapes st) of
        (lastItem, shapes) \<Rightarrow> updateMeasurement m (st\<lparr>selectedShapes := shapes\<rparr>))"

definition handleSelection :: "mode \<Rightarrow> measurement \<Rightarrow> objectGroup \<Rightarrow> measurement outcome" where
  "handleSelection m st objGroup =
     and_then
       (let st = hideMeasurement st
        in if length (selectedShapes st) = getMaxObjSelected m then removeLastSelectedObj m st
           else Done st)
       (\<lambda>st.
          updateMeasurement m
            (if array_includes (selectedShapes st) objGroup
             then st\<lparr>selectedShapes := splice1 (selectedShapes st) (indexOf (selectedShapes st) objGroup)\<rparr>
             else st\<lparr>selectedShapes := selectedShapes st @ [objGroup]\<rparr>))"

text \<open>
  A sequence of calls from the viewer. An exception escapes to the caller, and the
  object stays as the call left it.
\<close>

datatype call = HandleSelection objectGroup | RemoveLastSelectedObj

fun perform :: "mode \<Rightarrow> measurement \<Rightarrow> call \<Rightarrow> measurement outcome" where
  "perform m st (HandleSelection objGroup) = handleSelection m st objGroup"
| "perform m st RemoveLastSelectedObj = removeLastSelectedObj m st"

fun calls :: "mode \<Rightarrow> measurement \<Rightarrow> call list \<Rightarrow> measurement" where
  "calls m st [] = st"
| "calls m st (c # cs) = calls m (state_of (perform m st c)) cs"

subsection \<open>Responses of the backend\<close>

text \<open>
  \<^verbatim>\<open>_waitResponse(resolve, reject)\<close>: one check. It calls \<^verbatim>\<open>resolve\<close> with the
  stored data, or sets a timer (in milliseconds) for the next check.
\<close>

datatype poll = Resolve measureData | Reject | SetTimeout nat

definition waitResponse :: "measurement \<Rightarrow> poll" where
  "waitResponse st =
     (case responseData st of
        Some d \<Rightarrow> Resolve d
      | None \<Rightarrow> SetTimeout 100)"

text \<open>
  The checks of one promise: \<open>sts\<close> are the states of the object at the successive
  checks (other handlers run between two checks). The result is the value the promise is
  fulfilled with, \<open>None\<close> while it is pending after the last of the checks.
\<close>

fun fulfilled :: "measurement list \<Rightarrow> measureData option" where
  "fulfilled [] = None"
| "fulfilled (st # sts) =
     (case waitResponse st of
        Resolve d \<Rightarrow> Some d
      | Reject \<Rightarrow> None
      | SetTimeout ms \<Rightarrow> fulfilled sts)"

fun handleResponse :: "mode \<Rightarrow> measurement \<Rightarrow> response \<Rightarrow> measurement outcome" where
  "handleResponse DistanceMeasurement st response =
     (case r_point1 response of
        None \<Rightarrow> Throws TypeError st
      | Some p1 \<Rightarrow>
          (case r_point2 response of
             None \<Rightarrow> Throws TypeError st
           | Some p2 \<Rightarrow>
               (let data = emptyData\<lparr>d_distance := r_distance response,
                                       d_point1 := Some (Vector3 p1), d_point2 := Some (Vector3 p2)\<rparr>
                in Done (st\<lparr>responseData := Some data\<rparr>))))"
| "handleResponse PropertiesMeasurement st response =
     (let data =
        (if truthy_array (r_vertex_coords response)
           then Some (emptyData\<lparr>d_vertex_coords := Some (Vector3 (the (r_vertex_coords response)))\<rparr>)
         else if truthy_num (r_length response)
           then Some (emptyData\<lparr>d_length := r_length response\<rparr>)
         else if truthy_num (r_area response)
           then Some (emptyData\<lparr>d_area := r_area response\<rparr>)
         else if truthy_num (r_volume response)
           then Some (emptyData\<lparr>d_volume := r_volume response\<rparr>)
         else None)
      in case data of
           None \<Rightarrow> Throws TypeError st
         | Some data \<Rightarrow>
             (case r_center response of
                None \<Rightarrow> Throws TypeError st
              | Some c \<Rightarrow>
                  (let data = data\<lparr>d_center := Some (Vector3 c)\<rparr>
                   in Done (st\<lparr>responseData := Some data\<rparr>))))"
| "handleResponse AngleMeasurement st response =
     (case r_point1 response of
        None \<Rightarrow> Throws TypeError st
      | Some p1 \<Rightarrow>
          (case r_point2 response of
             None \<Rightarrow> Throws TypeError st
           | Some p2 \<Rightarrow>
               (case r_plane_normal response of
                  None \<Rightarrow> Throws TypeError st
                | Some n \<Rightarrow>
                    (let data = emptyData\<lparr>d_angle := r_angle response,
                                            d_point1 := Some (Vector3 p1), d_point2 := Some (Vector3 p2),
                                            d_planeNormal := Some (Vector3 n)\<rparr>
                     in Done (st\<lparr>responseData := Some data\<rparr>)))))"

text \<open>The invariant of the selection: pairwise distinct, and not longer than the mode allows.\<close>

definition selectionOk :: "mode \<Rightarrow> measurement \<Rightarrow> bool" where
  "selectionOk m st = (distinct (selectedShapes st) \<and> length (selectedShapes st) \<le> getMaxObjSelected m)"

text \<open>A zero read as an absent number: both are falsy.\<close>

definition zeroAsAbsent :: "real option \<Rightarrow> real option" where
  "zeroAsAbsent v = (if v = Some 0 then None else v)"

subsection \<open>Example objects\<close>

definition face0 :: objectGroup where
  "face0 = \<lparr>oid = 1, name = ''part|faces/faces_0'', center = (0, 0, 0)\<rparr>"

definition edge3 :: objectGroup where
  "edge3 = \<lparr>oid = 2, name = ''part|edges/edges_3'', center = (1, 0, 0)\<rparr>"

text \<open>A distance measurement that shows a stale overlay while one shape only is selected.\<close>

definition oneOfTwo :: measurement where
  "oneOfTwo = (Measurement ''block'')\<lparr>
     selectedShapes := [face0],
     scene := [DistanceLineArrow (0, 0, 0) (1, 0, 0) lineWidth 0 True True],
     responseData := Some emptyData\<rparr>"

text \<open>A response that carries a length of zero and no other measure, and one with an area.\<close>

definition noResponse :: response where
  "noResponse = \<lparr>r_distance = None, r_angle = None, r_point1 = None, r_point2 = None,
     r_plane_normal = None, r_vertex_coords = None, r_length = None, r_area = None,
     r_volume = None, r_center = None\<rparr>"

definition zeroLengthResponse :: response where
  "zeroLengthResponse = noResponse\<lparr>r_length := Some 0, r_center := Some [1, 2, 3]\<rparr>"

definition areaResponse :: response where
  "areaResponse = noResponse\<lparr>r_area := Some 4, r_center := Some [1, 2, 3]\<rparr>"

section \<open>Camera\<close>

subsection \<open>Vectors and quaternions of the rendering library\<close>

text \<open>
  The operations of \<^verbatim>\<open>Vector3\<close> that the camera uses, over the reals: the square
  root of \<^verbatim>\<open>length\<close> and the products are exact, where doubles round in the last
  bits. \<^verbatim>\<open>normalize\<close> divides by \<^verbatim>\<open>this.length() || 1\<close>, so the zero vector stays
  as it is.
\<close>

type_synonym quaternion = "real \<times> real \<times> real \<times> real"

definition sub :: "vec3 \<Rightarrow> vec3 \<Rightarrow> vec3" where
  "sub v w = (case v of (a, b, c) \<Rightarrow> case w of (d, e, f) \<Rightarrow> (a - d, b - e, c - f))"

definition add :: "vec3 \<Rightarrow> vec3 \<Rightarrow> vec3" where
  "add v w = (case v of (a, b, c) \<Rightarrow> case w of (d, e, f) \<Rightarrow> (a + d, b + e, c + f))"

definition multiplyScalar :: "vec3 \<Rightarrow> real \<Rightarrow> vec3" where
  "multiplyScalar v s = (case v of (a, b, c) \<Rightarrow> (a * s, b * s, c * s))"

definition divideScalar :: "vec3 \<Rightarrow> real \<Rightarrow> vec3" where
  "divideScalar v s = multiplyScalar v (1 / s)"

definition vlength :: "vec3 \<Rightarrow> real" where
  "vlength v = (case v of (a, b, c) \<Rightarrow> sqrt (a * a + b * b + c * c))"

definition normalize :: "vec3 \<Rightarrow> vec3" where
  "normalize v = divideScalar v (if vlength v = 0 then 1 else vlength v)"

definition setLength :: "vec3 \<Rightarrow> real \<Rightarrow> vec3" where
  "setLength v l = multiplyScalar (normalize v) l"

text \<open>
  The orientation of a camera is computed by the library. Its three functions that the
  camera calls are parameters: \<^verbatim>\<open>lookAt\<close> (from the position, the target and the up
  vector of a camera), \<^verbatim>\<open>Quaternion.setFromAxisAngle\<close> and \<^verbatim>\<open>Quaternion.multiply\<close>.
\<close>

record three =
  lookAt :: "vec3 \<Rightarrow> vec3 \<Rightarrow> vec3 \<Rightarrow> quaternion"
  setFromAxisAngle :: "vec3 \<Rightarrow> real \<Rightarrow> quaternion"
  multiply :: "quaternion \<Rightarrow> quaternion \<Rightarrow> quaternion"

subsection \<open>Preset directions\<close>

datatype upName = y_up | z_up | legacy

datatype direction = Iso | Front | Rear | Left | Right | Top | Bottom

record preset =
  pos :: vec3
  z_rot :: real

fun defaultDirections :: "upName \<Rightarrow> direction \<Rightarrow> preset" where
  "defaultDirections y_up Iso = \<lparr>pos = (1, 1, 1), z_rot = 0\<rparr>"
| "defaultDirections y_up Front = \<lparr>pos = (0, 0, 1), z_rot = 0\<rparr>"
| "defaultDirections y_up Rear = \<lparr>pos = (0, 0, -1), z_rot = 0\<rparr>"
| "defaultDirections y_up Left = \<lparr>pos = (-1, 0, 0), z_rot = 0\<rparr>"
| "defaultDirections y_up Right = \<lparr>pos = (1, 0, 0), z_rot = 0\<rparr>"
| "defaultDirections y_up Top = \<lparr>pos = (0, 1, 0), z_rot = 0\<rparr>"
| "defaultDirections y_up Bottom = \<lparr>pos = (0, -1, 0), z_rot = 0\<rparr>"
| "defaultDirections z_up Iso = \<lparr>pos = (1, -1, 1), z_rot = 0\<rparr>"
| "defaultDirections z_up Front = \<lparr>pos = (0, -1, 0), z_rot = 0\<rparr>"
| "defaultDirections z_up Rear = \<lparr>pos = (0, 1, 0), z_rot = 0\<rparr>"
| "defaultDirections z_up Left = \<lparr>pos = (-1, 0, 0), z_rot = 0\<rparr>"
| "defaultDirections z_up Right = \<lparr>pos = (1, 0, 0), z_rot = 0\<rparr>"
| "defaultDirections z_up Top = \<lparr>pos = (0, 0, 1), z_rot = - pi / 2\<rparr>"
| "defaultDirections z_up Bottom = \<lparr>pos = (0, 0, -1), z_rot = - pi / 2\<rparr>"
| "defaultDirections legacy Iso = \<lparr>pos = (1, 1, 1), z_rot = 0\<rparr>"
| "defaultDirections legacy Front = \<lparr>pos = (1, 0, 0), z_rot = 0\<rparr>"
| "defaultDirections legacy Rear = \<lparr>pos = (-1, 0, 0), z_rot = 0\<rparr>"
| "defaultDirections legacy Left = \<lparr>pos = (0, 1, 0), z_rot = 0\<rparr>"
| "defaultDirections legacy Right = \<lparr>pos = (0, -1, 0), z_rot = 0\<rparr>"
| "defaultDirections legacy Top = \<lparr>pos = (0, 0, 1), z_rot = 0\<rparr>"
| "defaultDirections legacy Bottom = \<lparr>pos = (0, 0, -1), z_rot = 0\<rparr>"

fun cameraUp :: "upName \<Rightarrow> vec3" where
  "cameraUp y_up = (0, 1, 0)"
| "cameraUp z_up = (0, 0, 1)"
| "cameraUp legacy = (0, 0, 1)"

text \<open>The constructor's table from the letter to the name; any other key is \<^verbatim>\<open>undefined\<close>.\<close>

definition mapping :: "string \<Rightarrow> upName option" where
  "mapping up =
     (if up = ''Y'' then Some y_up
      else if up = ''Z'' then Some z_up
      else if up = ''L'' then Some legacy
      else None)"

subsection \<open>The two cameras\<close>

text \<open>
  What the wrapper reads and writes of a camera of the library; the projection matrix
  and the frustum are not modelled, so \<^verbatim>\<open>updateProjectionMatrix\<close> is no step here.

  The field \<^verbatim>\<open>camera\<close> of the wrapper is a reference to one of its two cameras. The
  constructor and \<^verbatim>\<open>switchCamera\<close> set it together with the flag \<^verbatim>\<open>ortho\<close>, so
  it is read off the flag.
\<close>

record threeCamera =
  position :: vec3
  quaternion :: quaternion
  zoom :: real
  cam_up :: vec3

record camera =
  target :: vec3
  ortho :: bool
  up :: upName
  camera_distance :: real
  pCamera :: threeCamera
  oCamera :: threeCamera

definition getCamera :: "camera \<Rightarrow> threeCamera" where
  "getCamera c = (if ortho c then oCamera c else pCamera c)"

definition onCamera :: "(threeCamera \<Rightarrow> threeCamera) \<Rightarrow> camera \<Rightarrow> camera" where
  "onCamera f c = (if ortho c then c\<lparr>oCamera := f (oCamera c)\<rparr> else c\<lparr>pCamera := f (pCamera c)\<rparr>)"

text \<open>
  The constructor. A new camera of the library is at the origin, with the identity
  quaternion and zoom 1; the wrapper sets its up vector and lets it look at the target.
  An unknown letter for \<open>up\<close> makes \<^verbatim>\<open>...cameraUp[this.up]\<close> spread
  \<^verbatim>\<open>undefined\<close>, a \<^verbatim>\<open>TypeError\<close>.
\<close>

definition Camera ::
    "three \<Rightarrow> real \<Rightarrow> real \<Rightarrow> real \<Rightarrow> real list \<Rightarrow> bool \<Rightarrow> string \<Rightarrow> error + camera" where
  "Camera lib width height distance target' ortho' up' =
     (let tgt = Vector3 target';
          dfactor = 5
      in case mapping up' of
           None \<Rightarrow> Inl TypeError
         | Some u \<Rightarrow>
             (let cam = \<lparr>position = (0, 0, 0),
                         quaternion = lookAt lib (0, 0, 0) tgt (cameraUp u),
                         zoom = 1, cam_up = cameraUp u\<rparr>
              in Inr \<lparr>target = tgt, ortho = ortho', up = u, camera_distance = dfactor * distance,
                      pCamera = cam, oCamera = cam\<rparr>))"

subsection \<open>Zoom, position and orientation\<close>

text \<open>
  The model follows the numbers as long as they are finite. Where the code divides by
  zero (the result is \<^verbatim>\<open>Infinity\<close> or \<^verbatim>\<open>NaN\<close>), the model stops with \<open>None\<close>.
\<close>

definition getZoom :: "camera \<Rightarrow> real option" where
  "getZoom c =
     (if ortho c then Some (zoom (getCamera c))
      else (let p = sub (position (getCamera c)) (target c)
            in if vlength p = 0 then None else Some (camera_distance c / vlength p)))"

definition setZoom :: "camera \<Rightarrow> real \<Rightarrow> camera option" where
  "setZoom c val =
     (if ortho c then Some (onCamera (\<lambda>cam. cam\<lparr>zoom := val\<rparr>) c)
      else if val = 0 then None
      else Some (onCamera (\<lambda>cam. cam\<lparr>position :=
             add (setLength (sub (position cam) (target c)) (camera_distance c / val)) (target c)\<rparr>) c))"

definition getPosition :: "camera \<Rightarrow> vec3" where
  "getPosition c = position (getCamera c)"

definition getQuaternion :: "camera \<Rightarrow> quaternion" where
  "getQuaternion c = quaternion (getCamera c)"

definition setupCamera ::
    "camera \<Rightarrow> bool \<Rightarrow> vec3 option \<Rightarrow> quaternion option \<Rightarrow> real option \<Rightarrow> camera option" where
  "setupCamera c relative position' quaternion' zoom' =
     (let c = (case position' of
                 None \<Rightarrow> c
               | Some p \<Rightarrow>
                   (let cameraPosition =
                          (if relative
                           then add (multiplyScalar (normalize p) (camera_distance c)) (target c)
                           else p)
                    in onCamera (\<lambda>cam. cam\<lparr>position := cameraPosition\<rparr>) c));
          c = (case quaternion' of
                 None \<Rightarrow> c
               | Some q \<Rightarrow> onCamera (\<lambda>cam. cam\<lparr>quaternion := q\<rparr>) c)
      in case zoom' of None \<Rightarrow> Some c | Some z \<Rightarrow> setZoom c z)"

text \<open>
  \<^verbatim>\<open>setPosition\<close> and \<^verbatim>\<open>setQuaternion\<close> take an array or an object of the library;
  an array of another length is reported on the console and changes nothing. The
  \<^verbatim>\<open>null\<close> that \<^verbatim>\<open>setQuaternion\<close> passes for \<open>relative\<close> is falsy.
\<close>

datatype 'a arg = Array "real list" | Object 'a

fun setPosition :: "camera \<Rightarrow> vec3 arg \<Rightarrow> bool \<Rightarrow> camera option" where
  "setPosition c (Array xs) relative =
     (if length xs = 3 then setupCamera c relative (Some (Vector3 xs)) None None else Some c)"
| "setPosition c (Object v) relative = setupCamera c relative (Some v) None None"

fun setQuaternion :: "camera \<Rightarrow> quaternion arg \<Rightarrow> camera option" where
  "setQuaternion c (Array xs) =
     (case xs of
        [x, y, z, w] \<Rightarrow> setupCamera c False None (Some (x, y, z, w)) None
      | _ \<Rightarrow> Some c)"
| "setQuaternion c (Object q) = setupCamera c False None (Some q) None"

definition lookAtTarget :: "three \<Rightarrow> camera \<Rightarrow> camera" where
  "lookAtTarget lib c =
     onCamera (\<lambda>cam. cam\<lparr>quaternion := lookAt lib (position cam) (target c) (cam_up cam)\<rparr>) c"

definition presetCamera :: "three \<Rightarrow> camera \<Rightarrow> direction \<Rightarrow> real option \<Rightarrow> camera option" where
  "presetCamera lib c dir zoom' =
     (let z = (case zoom' of None \<Rightarrow> zoom (getCamera c) | Some z \<Rightarrow> z)
      in case setupCamera c True (Some (pos (defaultDirections (up c) dir))) None (Some z) of
           None \<Rightarrow> None
         | Some c \<Rightarrow>
             (let c = lookAtTarget lib c
              in if z_rot (defaultDirections (up c) dir) \<noteq> 0 then
                   (let q = setFromAxisAngle lib (0, 0, 1) (z_rot (defaultDirections (up c) dir));
                        q = multiply lib q (getQuaternion c)
                    in setQuaternion c (Object q))
                 else Some c))"

definition switchCamera :: "camera \<Rightarrow> bool \<Rightarrow> camera option" where
  "switchCamera c ortho_flag =
     (let p0 = getPosition c
      in case getZoom c of
           None \<Rightarrow> None
         | Some z0 \<Rightarrow>
             (let q0 = getQuaternion c;
                  c = c\<lparr>ortho := ortho_flag\<rparr>
              in case setPosition c (Object p0) False of
                   None \<Rightarrow> None
                 | Some c \<Rightarrow>
                     (case setZoom c z0 of
                        None \<Rightarrow> None
                      | Some c \<Rightarrow> setQuaternion c (Object q0))))"

subsection \<open>Example cameras\<close>

text \<open>A library whose orientation functions return the identity quaternion.\<close>

definition flatLib :: three where
  "flatLib = \<lparr>lookAt = (\<lambda>p t u. (0, 0, 0, 1)), setFromAxisAngle = (\<lambda>a r. (0, 0, 0, 1)),
     multiply = (\<lambda>p q. (0, 0, 0, 1))\<rparr>"

text \<open>
  The state after \<^verbatim>\<open>new Camera(800, 600, 10, [0, 0, 0], ortho, "Z")\<close>: both cameras
  of the library are at the origin, which is the target.
\<close>

definition newCamera :: "bool \<Rightarrow> camera" where
  "newCamera ortho' =
     \<lparr>target = (0, 0, 0), ortho = ortho', up = z_up, camera_distance = 50,
      pCamera = \<lparr>position = (0, 0, 0), quaternion = (0, 0, 0, 1), zoom = 1, cam_up = (0, 0, 1)\<rparr>,
      oCamera = \<lparr>position = (0, 0, 0), quaternion = (0, 0, 0, 1), zoom = 1, cam_up = (0, 0, 1)\<rparr>\<rparr>"

text \<open>
  The same camera moved to the front view: 50 away from the target, the orthographic
  camera zoomed by 2.
\<close>

definition placedCamera :: "bool \<Rightarrow> camera" where
  "placedCamera ortho' =
     \<lparr>target = (0, 0, 0), ortho = ortho', up = z_up, camera_distance = 50,
      pCamera = \<lparr>position = (0, -50, 0), quaternion = (0, 0, 0, 1), zoom = 1, cam_up = (0, 0, 1)\<rparr>,
      oCamera = \<lparr>position = (0, -50, 0), quaternion = (0, 0, 0, 1), zoom = 2, cam_up = (0, 0, 1)\<rparr>\<rparr>"

text \<open>
  The state after \<^verbatim>\<open>new Camera(800, 600, 0, [0, 0, 0], false, "Z")\<close>: the camera
  distance is 5 times 0.
\<close>

definition zeroCamera :: camera where
  "zeroCamera =
     \<lparr>target = (0, 0, 0), ortho = False, up = z_up, camera_distance = 0,
      pCamera = \<lparr>position = (0, 0, 0), quaternion = (0, 0, 0, 1), zoom = 1, cam_up = (0, 0, 1)\<rparr>,
      oCamera = \<lparr>position = (0, 0, 0), quaternion = (0, 0, 0, 1), zoom = 1, cam_up = (0, 0, 1)\<rparr>\<rparr>"

text \<open>
  The camera is on the ray from the target along a direction: position minus target is
  a positive multiple of the direction.
\<close>

definition onRay :: "camera \<Rightarrow> vec3 \<Rightarrow> bool" where
  "onRay c d = (\<exists>k. 0 < k \<and> sub (getPosition c) (target c) = multiplyScalar d k)"

section \<open>Grid: nice numbers\<close>

subsection \<open>Numbers with infinities\<close>

text \<open>
  The tick computation takes logarithms and divides, so it can leave the finite
  numbers; its operations are modelled on the reals extended by the two infinities and
  \<^verbatim>\<open>NaN\<close>, as the language defines them on exact numbers. On finite operands the
  difference, the product, the quotient by a number other than zero and the power of ten
  are the exact reals: a double would round them, overflow to \<^verbatim>\<open>Infinity\<close> beyond
  about \<open>1.8e308\<close> (as \<^verbatim>\<open>1e308 - (-1e308)\<close> does) and underflow to zero below
  about \<open>5e-324\<close> (as \<^verbatim>\<open>10 ** -324\<close> does); none of this is modelled. The sign of a
  zero is not distinguished: a zero divisor counts as \<open>+0\<close>.
\<close>

datatype jsnum = Num real | PosInf | NegInf | NaN

fun sign :: "jsnum \<Rightarrow> real" where
  "sign (Num x) = sgn x"
| "sign PosInf = 1"
| "sign NegInf = -1"
| "sign NaN = 0"

definition infinity :: "real \<Rightarrow> jsnum" where
  "infinity s = (if 0 < s then PosInf else if s < 0 then NegInf else NaN)"

fun js_sub :: "jsnum \<Rightarrow> jsnum \<Rightarrow> jsnum" where
  "js_sub (Num x) (Num y) = Num (x - y)"
| "js_sub NaN b = NaN"
| "js_sub a NaN = NaN"
| "js_sub PosInf PosInf = NaN"
| "js_sub NegInf NegInf = NaN"
| "js_sub PosInf b = PosInf"
| "js_sub NegInf b = NegInf"
| "js_sub (Num x) PosInf = NegInf"
| "js_sub (Num x) NegInf = PosInf"

fun js_mul :: "jsnum \<Rightarrow> jsnum \<Rightarrow> jsnum" where
  "js_mul (Num x) (Num y) = Num (x * y)"
| "js_mul NaN b = NaN"
| "js_mul a NaN = NaN"
| "js_mul a b = infinity (sign a * sign b)"

fun js_div :: "jsnum \<Rightarrow> jsnum \<Rightarrow> jsnum" where
  "js_div (Num x) (Num y) = (if y = 0 then infinity x else Num (x / y))"
| "js_div NaN b = NaN"
| "js_div a NaN = NaN"
| "js_div (Num x) b = Num 0"
| "js_div a (Num y) = (if y = 0 then a else infinity (sign a * sgn y))"
| "js_div a b = NaN"

fun js_lt :: "jsnum \<Rightarrow> jsnum \<Rightarrow> bool" where
  "js_lt (Num x) (Num y) = (x < y)"
| "js_lt NaN b = False"
| "js_lt a NaN = False"
| "js_lt a NegInf = False"
| "js_lt PosInf b = False"
| "js_lt a b = True"

fun js_le :: "jsnum \<Rightarrow> jsnum \<Rightarrow> bool" where
  "js_le (Num x) (Num y) = (x \<le> y)"
| "js_le NaN b = False"
| "js_le a NaN = False"
| "js_le NegInf b = True"
| "js_le a PosInf = True"
| "js_le a b = False"

fun Math_floor :: "jsnum \<Rightarrow> jsnum" where
  "Math_floor (Num x) = Num (of_int \<lfloor>x\<rfloor>)"
| "Math_floor a = a"

fun Math_ceil :: "jsnum \<Rightarrow> jsnum" where
  "Math_ceil (Num x) = Num (of_int \<lceil>x\<rceil>)"
| "Math_ceil a = a"

fun Math_log10 :: "jsnum \<Rightarrow> jsnum" where
  "Math_log10 (Num x) = (if 0 < x then Num (log 10 x) else if x = 0 then NegInf else NaN)"
| "Math_log10 PosInf = PosInf"
| "Math_log10 NegInf = NaN"
| "Math_log10 NaN = NaN"

text \<open>\<^verbatim>\<open>10 ** e\<close>.\<close>

fun pow10 :: "jsnum \<Rightarrow> jsnum" where
  "pow10 (Num e) = Num (10 powr e)"
| "pow10 PosInf = PosInf"
| "pow10 NegInf = Num 0"
| "pow10 NaN = NaN"

text \<open>\<^verbatim>\<open>!x\<close> and \<^verbatim>\<open>x == 0\<close> for a number.\<close>

fun falsy :: "jsnum \<Rightarrow> bool" where
  "falsy (Num x) = (x = 0)"
| "falsy NaN = True"
| "falsy a = False"

fun isZero :: "jsnum \<Rightarrow> bool" where
  "isZero (Num x) = (x = 0)"
| "isZero a = False"

subsection \<open>The two methods\<close>

text \<open>\<open>round'\<close> is \<^verbatim>\<open>true\<close> or left out (\<^verbatim>\<open>undefined\<close>, which is falsy).\<close>

definition niceNumber :: "jsnum \<Rightarrow> bool \<Rightarrow> jsnum" where
  "niceNumber val round' =
     (let exponent = Math_floor (Math_log10 val);
          fraction = js_div val (pow10 exponent);
          niceFraction =
            (if round' then
               (if js_lt fraction (Num 1.5) then 1.0
                else if js_lt fraction (Num 3.0) then 2.0
                else if js_lt fraction (Num 7.0) then 5.0
                else 10.0)
             else
               (if js_le fraction (Num 1) then 1.0
                else if js_le fraction (Num 2) then 2.0
                else if js_le fraction (Num 5) then 5.0
                else 10.0))
      in js_mul (Num niceFraction) (pow10 exponent))"

text \<open>The result is the array \<^verbatim>\<open>[axisStart, axisEnd, niceTick]\<close>.\<close>

definition niceBounds :: "jsnum \<Rightarrow> jsnum \<Rightarrow> jsnum \<Rightarrow> jsnum \<times> jsnum \<times> jsnum" where
  "niceBounds axisStart axisEnd numTicks =
     (let numTicks = (if falsy numTicks then Num 10 else numTicks);
          axisWidth = js_sub axisEnd axisStart
      in if isZero axisWidth then (axisStart, axisEnd, Num 0)
         else
           (let niceRange = niceNumber axisWidth False;
                niceTick = niceNumber (js_div niceRange (js_sub numTicks (Num 1))) True;
                axisStart = js_mul (Math_floor (js_div axisStart niceTick)) niceTick;
                axisEnd = js_mul (Math_ceil (js_div axisEnd niceTick)) niceTick
            in (axisStart, axisEnd, niceTick)))"

definition niceTick :: "jsnum \<times> jsnum \<times> jsnum \<Rightarrow> jsnum" where
  "niceTick bounds = snd (snd bounds)"

text \<open>A nice value: 1, 2, 5 or 10 times a power of ten with an integer exponent.\<close>

definition isNice :: "jsnum \<Rightarrow> bool" where
  "isNice t = (\<exists>f n. f \<in> {1, 2, 5, 10} \<and> t = Num (f * 10 powr real_of_int n))"

section \<open>Tools\<close>

text \<open>
  The export list of the measure module,
  \<^verbatim>\<open>export { DistanceMeasurement, PropertiesMeasurement, AngleMeasurement }\<close>, and the
  binding an import of a name gets: a name that the module does not export is bound to
  \<^verbatim>\<open>undefined\<close>.
\<close>

definition measure_exports :: "(string \<times> mode) list" where
  "measure_exports =
     [(''DistanceMeasurement'', DistanceMeasurement),
      (''PropertiesMeasurement'', PropertiesMeasurement),
      (''AngleMeasurement'', AngleMeasurement)]"

definition import_measure :: "string \<Rightarrow> mode option" where
  "import_measure binding = map_of measure_exports binding"

text \<open>
  Of the viewer the constructors read the panel of their mode in
  \<^verbatim>\<open>viewer.display\<close>; a panel is given by its initial \<^verbatim>\<open>style.display\<close>.
\<close>

record viewer =
  distanceMeasurementPanel :: string
  propertiesMeasurementPanel :: string
  angleMeasurementPanel :: string

fun panelOf :: "mode \<Rightarrow> viewer \<Rightarrow> string" where
  "panelOf DistanceMeasurement v = distanceMeasurementPanel v"
| "panelOf PropertiesMeasurement v = propertiesMeasurementPanel v"
| "panelOf AngleMeasurement v = angleMeasurementPanel v"

text \<open>\<^verbatim>\<open>new C(viewer)\<close> for an imported binding \<open>C\<close>: \<^verbatim>\<open>undefined\<close> is not a constructor.\<close>

definition new :: "mode option \<Rightarrow> viewer \<Rightarrow> error + mode \<times> measurement" where
  "new binding v =
     (case binding of
        None \<Rightarrow> Inl TypeError
      | Some m \<Rightarrow> Inr (m, Measurement (panelOf m v)))"

record tools =
  distanceMeasurement :: "mode \<times> measurement"
  sizeMeasurement :: "mode \<times> measurement"

text \<open>
  The constructor, with the two imports of \<^verbatim>\<open>tools.js\<close>:
  \<^verbatim>\<open>import { DistanceMeasurement, SizeMeasurement } from "./measure"\<close>.
\<close>

definition Tools :: "viewer \<Rightarrow> error + tools" where
  "Tools v =
     (case new (import_measure ''DistanceMeasurement'') v of
        Inl e \<Rightarrow> Inl e
      | Inr dm \<Rightarrow>
          (case new (import_measure ''SizeMeasurement'') v of
             Inl e \<Rightarrow> Inl e
           | Inr sm \<Rightarrow> Inr \<lparr>distanceMeasurement = dm, sizeMeasurement = sm\<rparr>))"

section \<open>Raycaster: results\<close>

lemma collectValid_filter: "collectValid rc objects validObjs = validObjs @ filter (pushed rc) objects"
  by (induction objects arbitrary: validObjs) simp_all

lemma getValidIntersectedObjs_set:
  "set (getValidIntersectedObjs rc objects) = (if mouseMoved rc then {ob \<in> set objects. pushed rc ob} else {})"
  by (simp add: getValidIntersectedObjs_def collectValid_filter)

lemma pushed_solid_filter:
  "array_includes (topoFilter rc) TopoFilter_solid \<Longrightarrow> \<not> pushed rc object"
  by (simp add: pushed_def Let_def split: option.splits)

lemma getValidIntersectedObjs_solid_filter:
  "array_includes (topoFilter rc) TopoFilter_solid \<Longrightarrow> getValidIntersectedObjs rc objects = []"
  by (simp add: getValidIntersectedObjs_def collectValid_filter pushed_solid_filter)

lemma pushed_without_solid:
  "\<not> array_includes (topoFilter rc) TopoFilter_solid \<Longrightarrow> examined object \<Longrightarrow> parent object = Some g \<Longrightarrow>
   pushed rc object \<longleftrightarrow>
     (array_includes (topoFilter rc) TopoFilter_none \<or> array_includes (topoFilter rc) (topo g))
     \<and> (array_includes (geomFilter rc) GeomFilter_none \<or> array_includes (geomFilter rc) (geom g))"
  by (auto simp: pushed_def Let_def)

lemma getValidIntersectedObjs_without_solid:
  assumes "\<not> array_includes (topoFilter rc) TopoFilter_solid" and "mouseMoved rc"
    and "examined ob" and "parent ob = Some g"
  shows "ob \<in> set (getValidIntersectedObjs rc objects) \<longleftrightarrow> ob \<in> set objects \<and> allowedByFilters rc g"
  using assms
  by (auto simp: getValidIntersectedObjs_set pushed_without_solid allowedByFilters_def)

text \<open>
  C1. The claim: an examined object is returned if and only if the topology filter
  contains none, solid or the topology of the object, and the geometry filter contains
  none or the geometry sub-type of the object. With the topology filter set to solid
  and the geometry filter left at none, a visible face with a plane geometry passes
  both tests of the claim, and the first test of the code; the second test of the code
  then rejects every object, since it requires the topology filter not to contain
  solid. The list returned is empty.
\<close>

theorem getValidIntersectedObjs_solid_rejects_all:
  "mouseMoved solidPicker \<and> examined hitFace \<and> parent hitFace = Some planeFace
   \<and> allowedByFilters solidPicker planeFace
   \<and> getValidIntersectedObjs solidPicker [hitFace] = []"
  by (simp add: getValidIntersectedObjs_def pushed_def examined_def array_includes_def
      allowedByFilters_def solidPicker_def hitFace_def planeFace_def)

section \<open>Measurement: selection\<close>

lemma and_then_keeps:
  "selectedShapes (state_of r) = xs \<Longrightarrow>
   (\<And>s. selectedShapes s = xs \<Longrightarrow> selectedShapes (state_of (f s)) = xs) \<Longrightarrow>
   selectedShapes (state_of (and_then r f)) = xs"
  by (cases r) auto

lemma getPoints_shapes: "selectedShapes (state_of (getPoints st)) = selectedShapes st"
  by (simp add: getPoints_def split: list.splits option.splits)

lemma setMeasurementVals_shapes:
  "selectedShapes (state_of (setMeasurementVals m st)) = selectedShapes st"
proof (cases m)
  case DistanceMeasurement
  then show ?thesis
    by (auto intro!: and_then_keeps simp: getPoints_shapes split: option.splits)
next
  case PropertiesMeasurement
  then show ?thesis
    by (simp add: Let_def split: list.splits option.splits)
next
  case AngleMeasurement
  then show ?thesis by simp
qed

lemma addConnectingLine_shapes:
  "selectedShapes (state_of (addConnectingLine p st)) = selectedShapes st"
  by (simp add: addConnectingLine_def split: sum.splits)

lemma makeLines_shapes: "selectedShapes (state_of (makeLines m st)) = selectedShapes st"
proof (cases m)
  case DistanceMeasurement
  then show ?thesis
    by (simp add: Let_def addConnectingLine_shapes split: sum.splits)
next
  case PropertiesMeasurement
  then show ?thesis
    by (simp add: addConnectingLine_shapes split: option.splits)
next
  case AngleMeasurement
  then show ?thesis
    by (auto intro!: and_then_keeps simp: getPoints_shapes Let_def addConnectingLine_shapes split: sum.splits)
qed

lemma movePanel_shapes: "selectedShapes (state_of (movePanel st)) = selectedShapes st"
  by (simp add: movePanel_def split: option.splits)

lemma updateMeasurement_shapes:
  "selectedShapes (state_of (updateMeasurement m st)) = selectedShapes st"
  unfolding updateMeasurement_def Let_def
  by (auto intro!: and_then_keeps simp: hideMeasurement_def setMeasurementVals_shapes makeLines_shapes movePanel_shapes)

lemma removeLastSelectedObj_shapes:
  "selectedShapes (state_of (removeLastSelectedObj m st)) = butlast (selectedShapes st)"
  by (simp add: removeLastSelectedObj_def pop_def updateMeasurement_shapes)

lemma indexOf_range: "- 1 \<le> indexOf xs x \<and> indexOf xs x < int (length xs)"
  by (induction xs) (auto simp: Let_def)

lemma indexOf_absent: "indexOf xs x < 0 \<longleftrightarrow> x \<notin> set xs"
proof (induction xs)
  case Nil
  then show ?case by simp
next
  case (Cons y ys)
  then show ?case using indexOf_range[of ys x] by (auto simp: Let_def)
qed

lemma splice1_indexOf: "x \<in> set xs \<Longrightarrow> splice1 xs (indexOf xs x) = remove1 x xs"
proof (induction xs)
  case Nil
  then show ?case by simp
next
  case (Cons y ys)
  show ?case
  proof (cases "y = x")
    case True
    then show ?thesis by (simp add: splice1_def)
  next
    case False
    with Cons.prems have mem: "x \<in> set ys" by simp
    then have nonneg: "0 \<le> indexOf ys x" using indexOf_absent[of ys x] by simp
    have lt: "indexOf ys x < int (length ys)" using indexOf_range[of ys x] by simp
    from Cons.IH[OF mem] nonneg lt have "take (nat (indexOf ys x)) ys @ drop (nat (indexOf ys x) + 1) ys = remove1 x ys"
      by (simp add: splice1_def Let_def min_def)
    with False nonneg lt show ?thesis
      by (simp add: splice1_def Let_def min_def nat_add_distrib)
  qed
qed

lemma getMaxObjSelected_pos: "0 < getMaxObjSelected m"
  by (cases m) simp_all

lemma updateMeasurement_hides:
  "length (selectedShapes st) \<noteq> getMaxObjSelected m \<Longrightarrow>
   updateMeasurement m st =
     Done (hideMeasurement (st\<lparr>selectedShapeIDs :=
       map (\<lambda>shape. replaceAll (name shape) (CHR ''|'') (CHR ''/'')) (selectedShapes st)\<rparr>))"
  by (simp add: updateMeasurement_def Let_def)

lemma removeLastSelectedObj_full:
  "length (selectedShapes st) = getMaxObjSelected m \<Longrightarrow> \<not> throws (removeLastSelectedObj m st)"
  using getMaxObjSelected_pos[of m]
  by (simp add: removeLastSelectedObj_def pop_def updateMeasurement_hides)

lemma handleSelection_shapes:
  "selectedShapes (state_of (handleSelection m st g)) =
     (let xs = (if length (selectedShapes st) = getMaxObjSelected m then butlast (selectedShapes st)
                else selectedShapes st)
      in if g \<in> set xs then remove1 g xs else xs @ [g])"
proof -
  define r where "r = (let st = hideMeasurement st
        in if length (selectedShapes st) = getMaxObjSelected m then removeLastSelectedObj m st
           else Done st)"
  define xs where "xs = (if length (selectedShapes st) = getMaxObjSelected m then butlast (selectedShapes st)
                else selectedShapes st)"
  have r: "selectedShapes (state_of r) = xs"
    by (simp add: r_def xs_def Let_def removeLastSelectedObj_shapes hideMeasurement_def)
  show ?thesis
  proof (cases r)
    case (Done s)
    with r have "selectedShapes s = xs" by simp
    then show ?thesis
      using Done unfolding handleSelection_def r_def[symmetric] xs_def[symmetric]
      by (simp add: updateMeasurement_shapes array_includes_def splice1_indexOf Let_def)
  next
    case (Throws e s)
    have "\<not> throws r"
      by (simp add: r_def Let_def removeLastSelectedObj_full hideMeasurement_def)
    with Throws show ?thesis by simp
  qed
qed


lemma selectionOk_handleSelection:
  assumes "selectionOk m st"
  shows "selectionOk m (state_of (handleSelection m st g))"
proof -
  define xs where "xs = (if length (selectedShapes st) = getMaxObjSelected m then butlast (selectedShapes st)
                else selectedShapes st)"
  from assms have d: "distinct xs" and l: "length xs < getMaxObjSelected m"
    using getMaxObjSelected_pos[of m]
    by (auto simp: xs_def selectionOk_def distinct_butlast)
  have "selectedShapes (state_of (handleSelection m st g)) = (if g \<in> set xs then remove1 g xs else xs @ [g])"
    by (simp add: handleSelection_shapes xs_def Let_def)
  with d l show ?thesis
    by (auto simp: selectionOk_def length_remove1)
qed

lemma selectionOk_removeLastSelectedObj:
  assumes "selectionOk m st"
  shows "selectionOk m (state_of (removeLastSelectedObj m st))"
  using assms by (auto simp: selectionOk_def removeLastSelectedObj_shapes distinct_butlast)

lemma selectionOk_calls: "selectionOk m st \<Longrightarrow> selectionOk m (calls m st cs)"
proof (induction cs arbitrary: st)
  case Nil
  then show ?case by simp
next
  case (Cons c cs)
  have "selectionOk m (state_of (perform m st c))"
    using Cons.prems by (cases c) (simp_all add: selectionOk_handleSelection selectionOk_removeLastSelectedObj)
  then show ?case by (simp add: Cons.IH)
qed

text \<open>
  C2. In each of the three modes (at most 2, 1 and 2 shapes), after every sequence of
  calls of \<^verbatim>\<open>handleSelection\<close> and \<^verbatim>\<open>removeLastSelectedObj\<close> that starts with
  no shape selected, the selected shapes are pairwise distinct and not more than the
  mode allows.
\<close>

theorem selection_distinct_bounded:
  assumes "selectedShapes st = []"
  shows "getMaxObjSelected DistanceMeasurement = 2 \<and>
         getMaxObjSelected PropertiesMeasurement = 1 \<and>
         getMaxObjSelected AngleMeasurement = 2 \<and>
         distinct (selectedShapes (calls m st cs)) \<and>
         length (selectedShapes (calls m st cs)) \<le> getMaxObjSelected m"
proof -
  have "selectionOk m st"
    using assms by (simp add: selectionOk_def)
  then have "selectionOk m (calls m st cs)"
    by (rule selectionOk_calls)
  then show ?thesis by (simp add: selectionOk_def)
qed

text \<open>
  Two picks fill a distance measurement; in the properties mode a second pick replaces
  the first.
\<close>

lemma calls_example_distance:
  "selectedShapes (calls DistanceMeasurement (Measurement ''none'')
     [HandleSelection face0, HandleSelection edge3]) = [face0, edge3]"
  by (simp add: handleSelection_shapes Measurement_def face0_def edge3_def)

lemma calls_example_properties:
  "selectedShapes (calls PropertiesMeasurement (Measurement ''none'')
     [HandleSelection face0, HandleSelection edge3]) = [edge3]"
  by (simp add: handleSelection_shapes Measurement_def face0_def edge3_def)

theorem selection_distinct_bounded_witness:
  "selectedShapes (Measurement ''none'') = []
   \<and> selectedShapes (calls PropertiesMeasurement (Measurement ''none'')
        [HandleSelection face0, HandleSelection edge3]) = [edge3]
   \<and> distinct (selectedShapes (calls PropertiesMeasurement (Measurement ''none'')
        [HandleSelection face0, HandleSelection edge3]))
   \<and> length (selectedShapes (calls PropertiesMeasurement (Measurement ''none'')
        [HandleSelection face0, HandleSelection edge3])) \<le> 1"
proof -
  have e: "selectedShapes (Measurement ''none'') = []"
    by (simp add: Measurement_def)
  note t = selection_distinct_bounded[OF e, of PropertiesMeasurement
      "[HandleSelection face0, HandleSelection edge3]"]
  show ?thesis using e t calls_example_properties by simp
qed

section \<open>Measurement: the gate of the overlay\<close>

text \<open>
  C3. When the number of selected shapes differs from the maximum of the mode,
  \<^verbatim>\<open>_updateMeasurement\<close> returns normally after hiding the measurement: the panel is
  not displayed, the scene is empty and the stored response is \<^verbatim>\<open>null\<close>. The
  overlay and the panel are therefore shown only when the two numbers are equal.
\<close>

theorem updateMeasurement_hides_unless_full:
  assumes "length (selectedShapes st) \<noteq> getMaxObjSelected m"
  shows "updateMeasurement m st =
           Done (hideMeasurement (st\<lparr>selectedShapeIDs :=
             map (\<lambda>shape. replaceAll (name shape) (CHR ''|'') (CHR ''/'')) (selectedShapes st)\<rparr>))
         \<and> \<not> throws (updateMeasurement m st)
         \<and> panelDisplay (state_of (updateMeasurement m st)) = ''none''
         \<and> scene (state_of (updateMeasurement m st)) = []
         \<and> responseData (state_of (updateMeasurement m st)) = None"
  using assms by (simp add: updateMeasurement_hides hideMeasurement_def)

theorem updateMeasurement_hides_unless_full_witness:
  "length (selectedShapes oneOfTwo) \<noteq> getMaxObjSelected DistanceMeasurement
   \<and> panelDisplay oneOfTwo = ''block'' \<and> scene oneOfTwo \<noteq> [] \<and> responseData oneOfTwo \<noteq> None
   \<and> \<not> throws (updateMeasurement DistanceMeasurement oneOfTwo)
   \<and> panelDisplay (state_of (updateMeasurement DistanceMeasurement oneOfTwo)) = ''none''
   \<and> scene (state_of (updateMeasurement DistanceMeasurement oneOfTwo)) = []
   \<and> responseData (state_of (updateMeasurement DistanceMeasurement oneOfTwo)) = None"
proof -
  have h: "length (selectedShapes oneOfTwo) \<noteq> getMaxObjSelected DistanceMeasurement"
    by (simp add: oneOfTwo_def)
  have before: "panelDisplay oneOfTwo = ''block'' \<and> scene oneOfTwo \<noteq> [] \<and> responseData oneOfTwo \<noteq> None"
    by (simp add: oneOfTwo_def Measurement_def)
  show ?thesis using h before updateMeasurement_hides_unless_full[OF h] by blast
qed

text \<open>With the full number of shapes, a call that returns has displayed the panel.\<close>

lemma and_then_not_throws:
  "\<not> throws (and_then r f) \<Longrightarrow> \<exists>s. r = Done s \<and> \<not> throws (f s)"
  by (cases r) auto

lemma movePanel_display: "panelDisplay (state_of (movePanel st)) = panelDisplay st"
  by (simp add: movePanel_def split: option.splits)

lemma updateMeasurement_shows_when_full:
  assumes "length (selectedShapes st) = getMaxObjSelected m" and "\<not> throws (updateMeasurement m st)"
  shows "panelDisplay (state_of (updateMeasurement m st)) = ''block''"
proof -
  define st0 where "st0 = st\<lparr>selectedShapeIDs :=
             map (\<lambda>shape. replaceAll (name shape) (CHR ''|'') (CHR ''/'')) (selectedShapes st)\<rparr>"
  have eq: "updateMeasurement m st = and_then (setMeasurementVals m st0) (\<lambda>st.
           and_then (makeLines m st) (\<lambda>st. movePanel (st\<lparr>panelDisplay := ''block''\<rparr>)))"
    using assms(1) by (simp add: updateMeasurement_def Let_def DEBUG_def st0_def)
  from assms(2) eq obtain s1 where s1: "setMeasurementVals m st0 = Done s1"
    and t1: "\<not> throws (and_then (makeLines m s1) (\<lambda>st. movePanel (st\<lparr>panelDisplay := ''block''\<rparr>)))"
    using and_then_not_throws by fastforce
  from t1 obtain s2 where s2: "makeLines m s1 = Done s2"
    using and_then_not_throws by blast
  show ?thesis by (simp add: eq s1 s2 movePanel_display)
qed

section \<open>Measurement: waiting for the backend\<close>

lemma fulfilled_first:
  "fulfilled sts = Some d \<Longrightarrow>
   \<exists>i<length sts. responseData (sts ! i) = Some d \<and> (\<forall>j<i. responseData (sts ! j) = None)"
proof (induction sts)
  case Nil
  then show ?case by simp
next
  case (Cons st sts)
  show ?case
  proof (cases "responseData st")
    case None
    with Cons.prems have "fulfilled sts = Some d" by (simp add: waitResponse_def)
    from Cons.IH[OF this] obtain i where i: "i < length sts" "responseData (sts ! i) = Some d"
      "\<forall>j<i. responseData (sts ! j) = None" by blast
    have "\<forall>j<Suc i. responseData ((st # sts) ! j) = None"
      using None i(3) by (auto simp: less_Suc_eq_0_disj)
    with i(1,2) show ?thesis by (intro exI[of _ "Suc i"]) simp
  next
    case (Some d')
    with Cons.prems have "d' = d" by (simp add: waitResponse_def)
    with Some show ?thesis by (intro exI[of _ 0]) simp
  qed
qed

lemma fulfilled_pending:
  "(\<forall>st \<in> set sts. responseData st = None) \<Longrightarrow> fulfilled sts = None"
  by (induction sts) (simp_all add: waitResponse_def)

text \<open>
  C7. One check of \<^verbatim>\<open>_waitResponse\<close> calls \<^verbatim>\<open>resolve\<close> exactly when a response
  is stored, and with that response; it never calls \<^verbatim>\<open>reject\<close>; while nothing is
  stored it sets a timer of 100 ms for the next check. A promise fulfilled by these
  checks is fulfilled with the response stored at the first check that found one.
\<close>

theorem waitResponse_resolves_stored:
  "(waitResponse st = Resolve d \<longleftrightarrow> responseData st = Some d)
   \<and> waitResponse st \<noteq> Reject
   \<and> (responseData st' = None \<longrightarrow> waitResponse st' = SetTimeout 100)
   \<and> (fulfilled sts = Some d' \<longrightarrow>
        (\<exists>i<length sts. responseData (sts ! i) = Some d' \<and> (\<forall>j<i. responseData (sts ! j) = None)))"
  using fulfilled_first[of sts d']
  by (auto simp: waitResponse_def split: option.splits)

theorem waitResponse_resolves_stored_witness:
  "responseData (Measurement ''none'') = None
   \<and> waitResponse (Measurement ''none'') = SetTimeout 100
   \<and> fulfilled [Measurement ''none'', Measurement ''none'', (Measurement ''none'')\<lparr>responseData := Some emptyData\<rparr>] = Some emptyData
   \<and> (\<exists>i<length [Measurement ''none'', Measurement ''none'', (Measurement ''none'')\<lparr>responseData := Some emptyData\<rparr>].
         responseData ([Measurement ''none'', Measurement ''none'', (Measurement ''none'')\<lparr>responseData := Some emptyData\<rparr>] ! i) = Some emptyData)"
proof -
  have a: "responseData (Measurement ''none'') = None" by (simp add: Measurement_def)
  have b: "fulfilled [Measurement ''none'', Measurement ''none'', (Measurement ''none'')\<lparr>responseData := Some emptyData\<rparr>] = Some emptyData"
    by (simp add: Measurement_def waitResponse_def)
  note t = waitResponse_resolves_stored[of "Measurement ''none''" emptyData "Measurement ''none''"
      "[Measurement ''none'', Measurement ''none'', (Measurement ''none'')\<lparr>responseData := Some emptyData\<rparr>]" emptyData]
  show ?thesis using a b t by blast
qed

section \<open>Measurement: the response of the properties mode\<close>

text \<open>
  C10. \<^verbatim>\<open>PropertiesMeasurement.handleResponse\<close> stores a measure only if it is truthy
  in the response; a length, area or volume of zero is handled as an absent one; and
  when no measure is truthy the handler throws a \<^verbatim>\<open>TypeError\<close> and leaves the
  object, so also the stored response, as it was.
\<close>

theorem handleResponse_Properties_truthy:
  "(handleResponse PropertiesMeasurement st r = Done st' \<longrightarrow>
      (\<exists>data. responseData st' = Some data
         \<and> (d_vertex_coords data \<noteq> None \<longrightarrow> truthy_array (r_vertex_coords r))
         \<and> (d_length data \<noteq> None \<longrightarrow> d_length data = r_length r \<and> truthy_num (r_length r))
         \<and> (d_area data \<noteq> None \<longrightarrow> d_area data = r_area r \<and> truthy_num (r_area r))
         \<and> (d_volume data \<noteq> None \<longrightarrow> d_volume data = r_volume r \<and> truthy_num (r_volume r))))
   \<and> handleResponse PropertiesMeasurement st1 r1 =
       handleResponse PropertiesMeasurement st1
         (r1\<lparr>r_length := zeroAsAbsent (r_length r1), r_area := zeroAsAbsent (r_area r1),
             r_volume := zeroAsAbsent (r_volume r1)\<rparr>)
   \<and> (\<not> truthy_array (r_vertex_coords r2) \<and> \<not> truthy_num (r_length r2)
        \<and> \<not> truthy_num (r_area r2) \<and> \<not> truthy_num (r_volume r2) \<longrightarrow>
      handleResponse PropertiesMeasurement st2 r2 = Throws TypeError st2)"
  by (auto simp: Let_def emptyData_def truthy_num_def truthy_array_def zeroAsAbsent_def
           split: option.splits if_splits)

theorem handleResponse_Properties_truthy_witness:
  "handleResponse PropertiesMeasurement (Measurement ''none'') areaResponse =
     Done ((Measurement ''none'')\<lparr>responseData := Some (emptyData\<lparr>d_area := Some 4, d_center := Some (1, 2, 3)\<rparr>)\<rparr>)
   \<and> truthy_num (r_area areaResponse)
   \<and> r_length zeroLengthResponse = Some 0
   \<and> \<not> truthy_array (r_vertex_coords zeroLengthResponse) \<and> \<not> truthy_num (r_length zeroLengthResponse)
   \<and> \<not> truthy_num (r_area zeroLengthResponse) \<and> \<not> truthy_num (r_volume zeroLengthResponse)
   \<and> handleResponse PropertiesMeasurement (Measurement ''none'') zeroLengthResponse =
       Throws TypeError (Measurement ''none'')"
proof -
  have stored: "handleResponse PropertiesMeasurement (Measurement ''none'') areaResponse =
     Done ((Measurement ''none'')\<lparr>responseData := Some (emptyData\<lparr>d_area := Some 4, d_center := Some (1, 2, 3)\<rparr>)\<rparr>)"
    by (simp add: areaResponse_def noResponse_def truthy_num_def truthy_array_def Let_def)
  have area: "truthy_num (r_area areaResponse)"
    by (simp add: areaResponse_def noResponse_def truthy_num_def)
  have zero: "r_length zeroLengthResponse = Some 0"
    by (simp add: zeroLengthResponse_def)
  have falsy: "\<not> truthy_array (r_vertex_coords zeroLengthResponse) \<and> \<not> truthy_num (r_length zeroLengthResponse)
      \<and> \<not> truthy_num (r_area zeroLengthResponse) \<and> \<not> truthy_num (r_volume zeroLengthResponse)"
    by (simp add: zeroLengthResponse_def noResponse_def truthy_num_def truthy_array_def)
  note t = handleResponse_Properties_truthy[where ?r2.0 = zeroLengthResponse and ?st2.0 = "Measurement ''none''"]
  show ?thesis using stored area zero falsy t by blast
qed

section \<open>Camera: vectors\<close>

lemma vlength_nonneg: "0 \<le> vlength v"
  by (cases v) (simp add: vlength_def)

lemma vlength_zero_iff: "vlength v = 0 \<longleftrightarrow> v = (0, 0, 0)"
proof (cases v)
  case (fields a b c)
  have "a * a + b * b + c * c = 0 \<longleftrightarrow> a = 0 \<and> b = 0 \<and> c = 0"
    by (metis (no_types, opaque_lifting) add_nonneg_eq_0_iff mult_eq_0_iff zero_le_square add_nonneg_nonneg)
  with fields show ?thesis by (simp add: vlength_def)
qed

lemma vlength_multiplyScalar: "vlength (multiplyScalar v s) = \<bar>s\<bar> * vlength v"
proof (cases v)
  case (fields a b c)
  have "a * s * (a * s) + b * s * (b * s) + c * s * (c * s) = (s * s) * (a * a + b * b + c * c)"
    by (simp add: algebra_simps)
  then show ?thesis using fields
    by (simp add: vlength_def multiplyScalar_def real_sqrt_mult)
qed

lemma sub_add: "sub (add v w) w = v"
  by (cases v; cases w) (simp add: sub_def add_def)

lemma multiplyScalar_twice: "multiplyScalar (multiplyScalar v s) t = multiplyScalar v (s * t)"
  by (cases v) (simp add: multiplyScalar_def mult.assoc)

lemma normalize_nonzero: "v \<noteq> (0, 0, 0) \<Longrightarrow> normalize v = multiplyScalar v (1 / vlength v)"
  by (simp add: normalize_def divideScalar_def vlength_zero_iff)

lemma normalize_zero: "normalize (0, 0, 0) = (0, 0, 0)"
  by (simp add: normalize_def divideScalar_def multiplyScalar_def)

lemma setLength_nonzero:
  "v \<noteq> (0, 0, 0) \<Longrightarrow> setLength v l = multiplyScalar v (l / vlength v)"
  by (simp add: setLength_def normalize_nonzero multiplyScalar_twice)

lemma vlength_setLength:
  assumes "v \<noteq> (0, 0, 0)"
  shows "vlength (setLength v l) = \<bar>l\<bar>"
proof -
  from assms have "0 < vlength v"
    using vlength_nonneg[of v] vlength_zero_iff[of v] by simp
  then show ?thesis
    by (simp add: setLength_nonzero[OF assms] vlength_multiplyScalar)
qed

lemma multiplyScalar_zero_iff: "multiplyScalar v s = (0, 0, 0) \<longleftrightarrow> v = (0, 0, 0) \<or> s = 0"
  by (cases v) (auto simp: multiplyScalar_def)

lemma pos_nonzero: "pos (defaultDirections u dir) \<noteq> (0, 0, 0)"
  by (cases u; cases dir) simp_all

section \<open>Camera: zoom, switch and presets\<close>

lemma sub_zero_iff: "sub v w = (0, 0, 0) \<longleftrightarrow> v = w"
  by (cases v; cases w) (simp add: sub_def)

lemma add_sub: "add (sub v w) w = v"
  by (cases v; cases w) (simp add: sub_def add_def)

lemma multiplyScalar_one: "multiplyScalar v 1 = v"
  by (cases v) (simp add: multiplyScalar_def)

lemma multiplyScalar_fixed: "v \<noteq> (0, 0, 0) \<Longrightarrow> multiplyScalar v k = v \<longleftrightarrow> k = 1"
  by (cases v) (auto simp: multiplyScalar_def)

lemma add_right_cancel3: "add v t = add w t \<longleftrightarrow> v = w"
  by (cases v; cases w; cases t) (simp add: add_def)

lemma vlength_pos: "v \<noteq> (0, 0, 0) \<Longrightarrow> 0 < vlength v"
  using vlength_nonneg[of v] vlength_zero_iff[of v] by simp

lemma onCamera_fields:
  "target (onCamera f c) = target c"
  "ortho (onCamera f c) = ortho c"
  "up (onCamera f c) = up c"
  "camera_distance (onCamera f c) = camera_distance c"
  "getCamera (onCamera f c) = f (getCamera c)"
  by (simp_all add: onCamera_def getCamera_def)

lemma setupCamera_position:
  "setupCamera c False (Some p) None None = Some (onCamera (\<lambda>cam. cam\<lparr>position := p\<rparr>) c)"
  by (simp add: setupCamera_def)

lemma setupCamera_quaternion:
  "setupCamera c False None (Some q) None = Some (onCamera (\<lambda>cam. cam\<lparr>quaternion := q\<rparr>) c)"
  by (simp add: setupCamera_def)

lemma setZoom_ortho:
  "ortho c \<Longrightarrow> setZoom c v = Some (onCamera (\<lambda>cam. cam\<lparr>zoom := v\<rparr>) c)"
  by (simp add: setZoom_def)

lemma setZoom_perspective:
  "\<not> ortho c \<Longrightarrow> v \<noteq> 0 \<Longrightarrow>
   setZoom c v = Some (onCamera (\<lambda>cam. cam\<lparr>position :=
             add (setLength (sub (position cam) (target c)) (camera_distance c / v)) (target c)\<rparr>) c)"
  by (simp add: setZoom_def)

text \<open>After a rescaling of a position off the target, the zoom read back is the one set.\<close>

lemma getZoom_rescaled:
  assumes "\<not> ortho c" "w \<noteq> (0, 0, 0)" "0 < v" "0 < camera_distance c"
    and "position (getCamera c) = add (setLength w (camera_distance c / v)) (target c)"
  shows "getZoom c = Some v"
    and "vlength (sub (position (getCamera c)) (target c)) = camera_distance c / v"
proof -
  have len: "vlength (sub (position (getCamera c)) (target c)) = camera_distance c / v"
    using assms by (simp add: sub_add vlength_setLength)
  then show "vlength (sub (position (getCamera c)) (target c)) = camera_distance c / v" .
  from len assms show "getZoom c = Some v"
    by (simp add: getZoom_def Let_def)
qed

lemma setZoom_then_getZoom:
  assumes "0 < v" and "ortho c \<or> (position (getCamera c) \<noteq> target c \<and> 0 < camera_distance c)"
  shows "\<exists>c'. setZoom c v = Some c' \<and> getZoom c' = Some v
           \<and> (if ortho c then zoom (getCamera c') = v
               else vlength (sub (position (getCamera c')) (target c')) = camera_distance c / v)"
proof (cases "ortho c")
  case True
  then show ?thesis
    by (simp add: setZoom_ortho getZoom_def onCamera_fields)
next
  case False
  with assms have off: "sub (position (getCamera c)) (target c) \<noteq> (0, 0, 0)" and cd: "0 < camera_distance c"
    by (simp_all add: sub_zero_iff)
  define c' where "c' = onCamera (\<lambda>cam. cam\<lparr>position :=
             add (setLength (sub (position cam) (target c)) (camera_distance c / v)) (target c)\<rparr>) c"
  have set: "setZoom c v = Some c'"
    using False assms(1) by (simp add: setZoom_perspective c'_def)
  have p: "position (getCamera c') =
      add (setLength (sub (position (getCamera c)) (target c)) (camera_distance c' / v)) (target c')"
    by (simp add: c'_def onCamera_fields)
  have "\<not> ortho c'" "0 < camera_distance c'"
    using False cd by (simp_all add: c'_def onCamera_fields)
  from getZoom_rescaled[OF this(1) off assms(1) this(2) p]
  have "getZoom c' = Some v" "vlength (sub (position (getCamera c')) (target c')) = camera_distance c / v"
    by (simp_all add: c'_def onCamera_fields)
  with set False show ?thesis by simp
qed

text \<open>
  C6, as amended. For a zoom value \<open>v > 0\<close>: in orthographic mode, and in perspective
  mode when the camera is not at the target and the camera distance is positive,
  \<^verbatim>\<open>setZoom(v)\<close> followed by \<^verbatim>\<open>getZoom()\<close> returns \<open>v\<close>; in perspective mode
  the camera is then at the distance \<open>camera_distance / v\<close> from the target.
\<close>

theorem setZoom_getZoom:
  assumes "0 < v" and "ortho c \<or> (position (getCamera c) \<noteq> target c \<and> 0 < camera_distance c)"
  shows "\<exists>c'. setZoom c v = Some c' \<and> getZoom c' = Some v
           \<and> (if ortho c then zoom (getCamera c') = v
               else vlength (sub (position (getCamera c')) (target c')) = camera_distance c / v)"
  using assms by (rule setZoom_then_getZoom)

theorem setZoom_getZoom_witness:
  "(0::real) < 4
   \<and> position (getCamera (placedCamera False)) \<noteq> target (placedCamera False)
   \<and> 0 < camera_distance (placedCamera False)
   \<and> (\<exists>c'. setZoom (placedCamera False) 4 = Some c' \<and> getZoom c' = Some 4
         \<and> vlength (sub (position (getCamera c')) (target c')) = 50 / 4)
   \<and> (\<exists>c'. setZoom (placedCamera True) 4 = Some c' \<and> getZoom c' = Some 4)"
proof -
  have a: "(0::real) < 4" by simp
  have b: "position (getCamera (placedCamera False)) \<noteq> target (placedCamera False)
           \<and> 0 < camera_distance (placedCamera False)"
    by (simp add: placedCamera_def getCamera_def)
  then have c: "ortho (placedCamera False) \<or> (position (getCamera (placedCamera False)) \<noteq> target (placedCamera False)
           \<and> 0 < camera_distance (placedCamera False))" by simp
  have d: "ortho (placedCamera True) \<or> (position (getCamera (placedCamera True)) \<noteq> target (placedCamera True)
           \<and> 0 < camera_distance (placedCamera True))" by (simp add: placedCamera_def)
  have o: "\<not> ortho (placedCamera False)" "camera_distance (placedCamera False) = 50"
    by (simp_all add: placedCamera_def)
  from setZoom_getZoom[OF a c] o
  have p: "\<exists>c'. setZoom (placedCamera False) 4 = Some c' \<and> getZoom c' = Some 4
         \<and> vlength (sub (position (getCamera c')) (target c')) = 50 / 4"
    by simp
  from setZoom_getZoom[OF a d]
  have q: "\<exists>c'. setZoom (placedCamera True) 4 = Some c' \<and> getZoom c' = Some 4" by blast
  show ?thesis using a b p q by blast
qed

text \<open>The example camera is the state the constructor returns.\<close>

lemma Camera_newCamera: "Camera flatLib 800 600 10 [0, 0, 0] b ''Z'' = Inr (newCamera b)"
  by (simp add: Camera_def mapping_def newCamera_def flatLib_def Let_def)

text \<open>
  C6, as stated, fails for a camera that is at its target, as both cameras are after
  the constructor when the target is the origin: in perspective mode
  \<^verbatim>\<open>setZoom(2)\<close> leaves the position at the target (the zero vector cannot be
  rescaled), and \<^verbatim>\<open>getZoom()\<close> divides the camera distance by zero.
\<close>

theorem setZoom_getZoom_at_target:
  "Camera flatLib 800 600 10 [0, 0, 0] False ''Z'' = Inr (newCamera False)
   \<and> setZoom (newCamera False) 2 = Some (newCamera False)
   \<and> getZoom (newCamera False) = None
   \<and> Option.bind (setZoom (newCamera False) 2) getZoom \<noteq> Some 2"
proof -
  have a: "setZoom (newCamera False) 2 = Some (newCamera False)"
    by (simp add: setZoom_def newCamera_def onCamera_def sub_def setLength_def normalize_def
        divideScalar_def multiplyScalar_def vlength_def add_def)
  have b: "getZoom (newCamera False) = None"
    by (simp add: getZoom_def newCamera_def getCamera_def sub_def vlength_def)
  show ?thesis using a b by (simp add: Camera_newCamera)
qed


lemma getZoom_Some:
  "ortho c \<or> position (getCamera c) \<noteq> target c \<Longrightarrow>
   getZoom c = Some (if ortho c then zoom (getCamera c)
                     else camera_distance c / vlength (sub (position (getCamera c)) (target c)))"
  by (auto simp: getZoom_def Let_def vlength_zero_iff sub_zero_iff)

text \<open>What \<^verbatim>\<open>switchCamera\<close> computes, as long as the zoom it reads is finite and not zero.\<close>

lemma switchCamera_steps:
  assumes "getZoom c = Some z0" and "flag \<or> z0 \<noteq> 0"
  shows "switchCamera c flag =
     Some (onCamera (\<lambda>cam. cam\<lparr>quaternion := getQuaternion c\<rparr>)
        (the (setZoom (onCamera (\<lambda>cam. cam\<lparr>position := getPosition c\<rparr>) (c\<lparr>ortho := flag\<rparr>)) z0)))"
proof -
  define c1 where "c1 = onCamera (\<lambda>cam. cam\<lparr>position := getPosition c\<rparr>) (c\<lparr>ortho := flag\<rparr>)"
  have o: "ortho c1 = flag" by (simp add: c1_def onCamera_fields)
  obtain c2 where c2: "setZoom c1 z0 = Some c2"
    using assms(2) o by (cases flag) (simp_all add: setZoom_def)
  show ?thesis
    using assms(1) c2
    by (simp add: switchCamera_def Let_def setupCamera_position setupCamera_quaternion c1_def[symmetric])
qed

text \<open>
  C9, as amended. Under real arithmetic, for a camera that is not at its target, with
  a positive camera distance and, in orthographic mode, a positive zoom,
  \<^verbatim>\<open>switchCamera\<close> leaves the
  zoom reported by \<^verbatim>\<open>getZoom\<close> and the quaternion as they were. From orthographic
  to perspective, the new position is at the distance \<open>camera_distance / z\<close> from the
  target, \<open>z\<close> the orthographic zoom, and it is the old position only if that was
  the distance before.
\<close>

theorem switchCamera_zoom_quaternion:
  assumes "position (getCamera c) \<noteq> target c" and "0 < camera_distance c"
    and "ortho c \<longrightarrow> 0 < zoom (oCamera c)"
  shows "\<exists>c'. switchCamera c flag = Some c' \<and> ortho c' = flag
           \<and> getZoom c' = getZoom c \<and> getQuaternion c' = getQuaternion c
           \<and> (ortho c \<and> \<not> flag \<longrightarrow>
                vlength (sub (getPosition c') (target c')) = camera_distance c / zoom (oCamera c)
                \<and> (getPosition c' = getPosition c \<longleftrightarrow>
                     vlength (sub (getPosition c) (target c)) = camera_distance c / zoom (oCamera c)))"
proof -
  define p0 where "p0 = getPosition c"
  define w where "w = sub p0 (target c)"
  have w: "w \<noteq> (0, 0, 0)" using assms(1) by (simp add: w_def p0_def getPosition_def sub_zero_iff)
  then have lw: "0 < vlength w" by (rule vlength_pos)
  define z0 where "z0 = (if ortho c then zoom (getCamera c) else camera_distance c / vlength w)"
  have z: "getZoom c = Some z0"
    using assms(1) by (simp add: getZoom_Some z0_def w_def p0_def getPosition_def)
  have zpos: "0 < z0"
    using assms(2,3) lw by (simp add: z0_def getCamera_def)
  define c1 where "c1 = onCamera (\<lambda>cam. cam\<lparr>position := p0\<rparr>) (c\<lparr>ortho := flag\<rparr>)"
  have c1: "ortho c1 = flag" "target c1 = target c" "camera_distance c1 = camera_distance c"
    "position (getCamera c1) = p0"
    by (simp_all add: c1_def onCamera_fields)
  obtain c2 where c2: "setZoom c1 z0 = Some c2"
    and z2: "getZoom c2 = Some z0"
    and r2: "if ortho c1 then zoom (getCamera c2) = z0
             else vlength (sub (position (getCamera c2)) (target c2)) = camera_distance c1 / z0"
    using setZoom_then_getZoom[OF zpos, of c1] assms(1,2) c1 by (auto simp: p0_def getPosition_def)
  have f2: "ortho c2 = flag" "target c2 = target c" "camera_distance c2 = camera_distance c"
    using c2 c1 zpos by (auto simp: setZoom_def onCamera_fields split: if_splits)
  define c' where "c' = onCamera (\<lambda>cam. cam\<lparr>quaternion := getQuaternion c\<rparr>) c2"
  have sw: "switchCamera c flag = Some c'"
    using switchCamera_steps[OF z, of flag] zpos c2
    by (simp add: c'_def c1_def p0_def)
  have f': "ortho c' = flag" "target c' = target c" "camera_distance c' = camera_distance c"
    "getPosition c' = position (getCamera c2)" "getQuaternion c' = getQuaternion c"
    "zoom (getCamera c') = zoom (getCamera c2)"
    using f2 by (simp_all add: c'_def onCamera_fields getPosition_def getQuaternion_def)
  have "getZoom c' = getZoom c2"
    by (simp add: getZoom_def c'_def onCamera_fields Let_def)
  with z2 have z': "getZoom c' = Some z0" by simp
  have pos: "ortho c \<and> \<not> flag \<longrightarrow>
      vlength (sub (getPosition c') (target c')) = camera_distance c / zoom (oCamera c)
      \<and> (getPosition c' = getPosition c \<longleftrightarrow>
          vlength (sub (getPosition c) (target c)) = camera_distance c / zoom (oCamera c))"
  proof
    assume a: "ortho c \<and> \<not> flag"
    then have zo: "z0 = zoom (oCamera c)" by (simp add: z0_def getCamera_def)
    from a r2 c1 f2 f' have len: "vlength (sub (getPosition c') (target c')) = camera_distance c / z0"
      by simp
    have p2: "position (getCamera c2) = add (setLength w (camera_distance c / z0)) (target c)"
      using c2 a c1 zpos by (auto simp: setZoom_def onCamera_fields w_def)
    have e1: "getPosition c' = add (multiplyScalar w ((camera_distance c / z0) / vlength w)) (target c)"
      using f'(4) p2 setLength_nonzero[OF w, of "camera_distance c / z0"] by simp
    have p0w: "p0 = add w (target c)" by (simp add: w_def add_sub)
    have "getPosition c' = p0 \<longleftrightarrow>
        add (multiplyScalar w ((camera_distance c / z0) / vlength w)) (target c) = add w (target c)"
      unfolding e1 using p0w by simp
    also have "\<dots> \<longleftrightarrow> (camera_distance c / z0) / vlength w = 1"
      by (simp add: add_right_cancel3 multiplyScalar_fixed[OF w])
    also have "\<dots> \<longleftrightarrow> vlength w = camera_distance c / z0"
      using lw by (auto simp: field_simps)
    finally show "vlength (sub (getPosition c') (target c')) = camera_distance c / zoom (oCamera c)
      \<and> (getPosition c' = getPosition c \<longleftrightarrow>
          vlength (sub (getPosition c) (target c)) = camera_distance c / zoom (oCamera c))"
      using len zo by (simp add: p0_def w_def)
  qed
  show ?thesis
    using sw f' z' z pos by (intro exI[of _ c']) simp
qed

lemma vlength_front: "vlength (0, -50, 0) = 50"
proof -
  have "sqrt (50 * 50) = \<bar>50::real\<bar>" by (rule real_sqrt_abs2)
  then show ?thesis by (simp add: vlength_def)
qed

theorem switchCamera_zoom_quaternion_witness:
  "position (getCamera (placedCamera True)) \<noteq> target (placedCamera True)
   \<and> 0 < camera_distance (placedCamera True)
   \<and> 0 < zoom (oCamera (placedCamera True))
   \<and> vlength (sub (getPosition (placedCamera True)) (target (placedCamera True))) = 50
   \<and> (\<exists>c'. switchCamera (placedCamera True) False = Some c'
         \<and> getZoom c' = getZoom (placedCamera True)
         \<and> getQuaternion c' = getQuaternion (placedCamera True)
         \<and> vlength (sub (getPosition c') (target c')) = 25
         \<and> getPosition c' \<noteq> getPosition (placedCamera True))"
proof -
  have a: "position (getCamera (placedCamera True)) \<noteq> target (placedCamera True)"
    by (simp add: placedCamera_def getCamera_def)
  have b: "0 < camera_distance (placedCamera True)" by (simp add: placedCamera_def)
  have c: "0 < zoom (oCamera (placedCamera True))" by (simp add: placedCamera_def)
  then have c': "ortho (placedCamera True) \<longrightarrow> 0 < zoom (oCamera (placedCamera True))" by simp
  have l: "vlength (sub (getPosition (placedCamera True)) (target (placedCamera True))) = 50"
    by (simp add: placedCamera_def getPosition_def getCamera_def sub_def vlength_front)
  have r: "camera_distance (placedCamera True) / zoom (oCamera (placedCamera True)) = 25"
    by (simp add: placedCamera_def)
  have o: "ortho (placedCamera True) \<and> \<not> False" by (simp add: placedCamera_def)
  from switchCamera_zoom_quaternion[OF a b c', of False] obtain c1 where
    s: "switchCamera (placedCamera True) False = Some c1"
    "getZoom c1 = getZoom (placedCamera True)" "getQuaternion c1 = getQuaternion (placedCamera True)"
    and x: "ortho (placedCamera True) \<and> \<not> False \<longrightarrow>
                vlength (sub (getPosition c1) (target c1)) = camera_distance (placedCamera True) / zoom (oCamera (placedCamera True))
                \<and> (getPosition c1 = getPosition (placedCamera True) \<longleftrightarrow>
                     vlength (sub (getPosition (placedCamera True)) (target (placedCamera True))) = camera_distance (placedCamera True) / zoom (oCamera (placedCamera True)))"
    by blast
  from x o r l have "vlength (sub (getPosition c1) (target c1)) = 25"
    "getPosition c1 \<noteq> getPosition (placedCamera True)" by simp_all
  with s a b c l show ?thesis by blast
qed

text \<open>
  C9, as stated, fails for a camera that is at its target, as after the constructor
  with the origin as target: the orthographic camera reports the zoom 1; after the
  switch to perspective the camera is still at the target, and \<^verbatim>\<open>getZoom()\<close>
  divides by zero.
\<close>

theorem switchCamera_at_target:
  "Camera flatLib 800 600 10 [0, 0, 0] True ''Z'' = Inr (newCamera True)
   \<and> getZoom (newCamera True) = Some 1
   \<and> switchCamera (newCamera True) False = Some (newCamera False)
   \<and> Option.bind (switchCamera (newCamera True) False) getZoom = None"
proof -
  have a: "getZoom (newCamera True) = Some 1"
    by (simp add: getZoom_def newCamera_def getCamera_def)
  have b: "switchCamera (newCamera True) False = Some (newCamera False)"
    by (simp add: switchCamera_def getZoom_def getPosition_def getQuaternion_def getCamera_def
        setupCamera_def setZoom_def newCamera_def onCamera_def sub_def setLength_def normalize_def
        divideScalar_def multiplyScalar_def vlength_def add_def Let_def)
  have c: "getZoom (newCamera False) = None"
    by (simp add: getZoom_def newCamera_def getCamera_def sub_def vlength_def)
  show ?thesis using a b c by (simp add: Camera_newCamera)
qed

lemma setupCamera_preset:
  "setupCamera c True (Some p) None (Some z) =
     setZoom (onCamera (\<lambda>cam. cam\<lparr>position :=
        add (multiplyScalar (normalize p) (camera_distance c)) (target c)\<rparr>) c) z"
  by (simp add: setupCamera_def)

lemma setQuaternion_Object:
  "setQuaternion c (Object q) = Some (onCamera (\<lambda>cam. cam\<lparr>quaternion := q\<rparr>) c)"
  by (simp add: setupCamera_quaternion)

text \<open>The steps of \<^verbatim>\<open>presetCamera\<close> after \<^verbatim>\<open>setupCamera\<close> turn the camera only.\<close>

lemma presetCamera_turns:
  assumes "setupCamera c True (Some (pos (defaultDirections (up c) dir))) None
             (Some (case zoom' of None \<Rightarrow> zoom (getCamera c) | Some z \<Rightarrow> z)) = Some c1"
  shows "\<exists>c'. presetCamera lib c dir zoom' = Some c' \<and> getPosition c' = getPosition c1
           \<and> target c' = target c1 \<and> ortho c' = ortho c1 \<and> zoom (getCamera c') = zoom (getCamera c1)"
  using assms
  by (simp add: presetCamera_def Let_def lookAtTarget_def setupCamera_quaternion onCamera_fields
      getPosition_def)

text \<open>
  C5, as amended. Under real arithmetic, for each of the three up conventions and each
  of the seven presets, on a camera constructed with a positive distance (its camera
  distance is 5 times that distance) and with a positive zoom of the current camera in
  perspective mode, \<^verbatim>\<open>presetCamera(dir)\<close> places the camera so that position minus
  target is a positive multiple of the direction of the preset; when the zoom of the
  current camera is 1, its length is the camera distance.
\<close>

theorem presetCamera_on_ray:
  assumes "camera_distance c = 5 * distance" and "0 < distance"
    and "ortho c \<or> 0 < zoom (getCamera c)"
  shows "\<exists>c'. presetCamera lib c dir None = Some c'
           \<and> (\<exists>k>0. sub (getPosition c') (target c') =
                       multiplyScalar (pos (defaultDirections (up c) dir)) k)
           \<and> (zoom (getCamera c) = 1 \<longrightarrow>
                vlength (sub (getPosition c') (target c')) = 5 * distance)"
proof -
  define d where "d = pos (defaultDirections (up c) dir)"
  define cd where "cd = camera_distance c"
  define z where "z = zoom (getCamera c)"
  have d: "d \<noteq> (0, 0, 0)" by (simp add: d_def pos_nonzero)
  then have ld: "0 < vlength d" by (rule vlength_pos)
  have cd: "0 < cd" using assms(1,2) by (simp add: cd_def)
  define w where "w = multiplyScalar d (cd / vlength d)"
  have w: "w \<noteq> (0, 0, 0)" using d cd ld by (simp add: w_def multiplyScalar_zero_iff)
  have lw: "vlength w = cd" using cd ld by (simp add: w_def vlength_multiplyScalar)
  define c0 where "c0 = onCamera (\<lambda>cam. cam\<lparr>position := add w (target c)\<rparr>) c"
  have c0: "ortho c0 = ortho c" "target c0 = target c" "camera_distance c0 = cd"
    "position (getCamera c0) = add w (target c)" "up c0 = up c"
    by (simp_all add: c0_def onCamera_fields cd_def)
  have su: "setupCamera c True (Some d) None (Some z) = setZoom c0 z"
    by (simp add: setupCamera_preset c0_def w_def normalize_nonzero[OF d] multiplyScalar_twice cd_def)
  obtain c1 k where c1: "setZoom c0 z = Some c1" and t1: "target c1 = target c"
    and k: "0 < k" "sub (position (getCamera c1)) (target c) = multiplyScalar d k"
    and l1: "z = 1 \<longrightarrow> vlength (sub (position (getCamera c1)) (target c)) = cd"
  proof (cases "ortho c")
    case True
    let ?c1 = "onCamera (\<lambda>cam. cam\<lparr>zoom := z\<rparr>) c0"
    have "setZoom c0 z = Some ?c1" using True c0 by (simp add: setZoom_ortho)
    moreover have "sub (position (getCamera ?c1)) (target c) = multiplyScalar d (cd / vlength d)"
      using c0 by (simp add: onCamera_fields sub_add w_def)
    moreover have "vlength (sub (position (getCamera ?c1)) (target c)) = cd"
      using c0 lw by (simp add: onCamera_fields sub_add)
    moreover have "0 < cd / vlength d" using cd ld by simp
    moreover have "target ?c1 = target c" using c0 by (simp add: onCamera_fields)
    ultimately show ?thesis using that by blast
  next
    case False
    with assms(3) have z: "0 < z" by (simp add: z_def)
    define c1 where "c1 = onCamera (\<lambda>cam. cam\<lparr>position :=
             add (setLength (sub (position cam) (target c0)) (camera_distance c0 / z)) (target c0)\<rparr>) c0"
    have s: "setZoom c0 z = Some c1" using False c0 z by (simp add: setZoom_perspective c1_def)
    have p: "sub (position (getCamera c1)) (target c) = multiplyScalar w ((cd / z) / cd)"
      using c0 lw by (simp add: c1_def onCamera_fields sub_add setLength_nonzero[OF w])
    then have "sub (position (getCamera c1)) (target c) = multiplyScalar d ((cd / vlength d) * ((cd / z) / cd))"
      by (simp add: w_def multiplyScalar_twice)
    moreover have "0 < (cd / vlength d) * ((cd / z) / cd)" using cd ld z by simp
    moreover have "vlength (sub (position (getCamera c1)) (target c)) = \<bar>(cd / z) / cd\<bar> * cd"
      unfolding p by (simp only: vlength_multiplyScalar lw)
    then have "z = 1 \<longrightarrow> vlength (sub (position (getCamera c1)) (target c)) = cd"
      using cd by simp
    moreover have "target c1 = target c" using c0 by (simp add: c1_def onCamera_fields)
    ultimately show ?thesis using that s by blast
  qed
  from su c1 have "setupCamera c True (Some (pos (defaultDirections (up c) dir))) None
             (Some (case None of None \<Rightarrow> zoom (getCamera c) | Some z \<Rightarrow> z)) = Some c1"
    by (simp add: d_def z_def)
  from presetCamera_turns[OF this, of lib] obtain c' where c': "presetCamera lib c dir None = Some c'"
    "getPosition c' = getPosition c1" "target c' = target c1" by blast
  have "sub (getPosition c') (target c') = multiplyScalar d k"
    using c' t1 k(2) by (simp add: getPosition_def)
  moreover have "zoom (getCamera c) = 1 \<longrightarrow> vlength (sub (getPosition c') (target c')) = 5 * distance"
    using c' t1 l1 assms(1) by (simp add: getPosition_def z_def cd_def)
  ultimately show ?thesis using c'(1) k(1) unfolding d_def by blast
qed

theorem presetCamera_on_ray_witness:
  "Camera flatLib 800 600 10 [0, 0, 0] False ''Z'' = Inr (newCamera False)
   \<and> camera_distance (newCamera False) = 5 * 10
   \<and> zoom (getCamera (newCamera False)) = 1
   \<and> (\<exists>c'. presetCamera flatLib (newCamera False) Top None = Some c'
         \<and> (\<exists>k>0. sub (getPosition c') (target c') = multiplyScalar (0, 0, 1) k)
         \<and> vlength (sub (getPosition c') (target c')) = 5 * 10)"
proof -
  have a: "camera_distance (newCamera False) = 5 * 10" by (simp add: newCamera_def)
  have b: "(0::real) < 10" by simp
  have z: "zoom (getCamera (newCamera False)) = 1" by (simp add: newCamera_def getCamera_def)
  then have c: "ortho (newCamera False) \<or> 0 < zoom (getCamera (newCamera False))" by simp
  have u: "pos (defaultDirections (up (newCamera False)) Top) = (0, 0, 1)" by (simp add: newCamera_def)
  note t = presetCamera_on_ray[OF a b c, of flatLib Top, unfolded u]
  show ?thesis using a z t Camera_newCamera[of False] by blast
qed

lemma Camera_distance:
  "Camera lib width height distance tgt b u = Inr c \<Longrightarrow> camera_distance c = 5 * distance"
  by (auto simp: Camera_def Let_def split: option.splits)

lemma onRay_off_target:
  assumes "onRay c d" and "d \<noteq> (0, 0, 0)"
  shows "sub (getPosition c) (target c) \<noteq> (0, 0, 0)"
proof -
  from assms(1) obtain k where k: "0 < k" "sub (getPosition c) (target c) = multiplyScalar d k"
    unfolding onRay_def by blast
  have "multiplyScalar d k \<noteq> (0, 0, 0)"
    using assms(2) k(1) by (simp add: multiplyScalar_zero_iff)
  with k(2) show ?thesis by simp
qed

text \<open>
  C5, as stated, fails for a camera constructed with the distance 0: its camera
  distance is 0, \<^verbatim>\<open>presetCamera("front")\<close> scales the direction by 0 and leaves the
  camera at the target, and the zero vector is no positive multiple of the direction.
\<close>

theorem presetCamera_zero_distance:
  "Camera flatLib 800 600 0 [0, 0, 0] False ''Z'' = Inr zeroCamera
   \<and> presetCamera flatLib zeroCamera Front None = Some zeroCamera
   \<and> sub (getPosition zeroCamera) (target zeroCamera) = (0, 0, 0)
   \<and> \<not> onRay zeroCamera (pos (defaultDirections (up zeroCamera) Front))"
proof -
  have a: "Camera flatLib 800 600 0 [0, 0, 0] False ''Z'' = Inr zeroCamera"
    by (simp add: Camera_def mapping_def zeroCamera_def flatLib_def Let_def)
  have b: "presetCamera flatLib zeroCamera Front None = Some zeroCamera"
    by (simp add: presetCamera_def setupCamera_def setZoom_def lookAtTarget_def getCamera_def
        onCamera_def zeroCamera_def flatLib_def sub_def add_def setLength_def normalize_def
        divideScalar_def multiplyScalar_def vlength_def Let_def)
  have c: "sub (getPosition zeroCamera) (target zeroCamera) = (0, 0, 0)"
    by (simp add: getPosition_def getCamera_def zeroCamera_def sub_def)
  have d: "\<not> onRay zeroCamera (pos (defaultDirections (up zeroCamera) Front))"
    using onRay_off_target[of zeroCamera "pos (defaultDirections (up zeroCamera) Front)"] c
    by (auto simp: pos_nonzero)
  show ?thesis using a b c d by simp
qed

section \<open>Grid: the tick is a nice number\<close>

lemma niceNumber_positive:
  assumes "0 < v"
  shows "\<exists>f. f \<in> {1, 2, 5, 10} \<and> niceNumber (Num v) r = Num (f * 10 powr real_of_int \<lfloor>log 10 v\<rfloor>)"
proof -
  define e where "e = real_of_int \<lfloor>log 10 v\<rfloor>"
  define fraction where "fraction = Num (v / 10 powr e)"
  have ex: "Math_floor (Math_log10 (Num v)) = Num e"
    using assms by (simp add: e_def)
  have fr: "js_div (Num v) (pow10 (Num e)) = fraction"
    by (simp add: fraction_def)
  define niceFraction :: real where "niceFraction =
           (if r then
               (if js_lt fraction (Num 1.5) then 1.0
                else if js_lt fraction (Num 3.0) then 2.0
                else if js_lt fraction (Num 7.0) then 5.0
                else 10.0)
             else
               (if js_le fraction (Num 1) then 1.0
                else if js_le fraction (Num 2) then 2.0
                else if js_le fraction (Num 5) then 5.0
                else 10.0))"
  have nf: "niceFraction \<in> {1, 2, 5, 10}"
    by (simp add: niceFraction_def)
  have "niceNumber (Num v) r = Num (niceFraction * 10 powr e)"
    unfolding niceNumber_def Let_def ex fr niceFraction_def by simp
  with nf show ?thesis
    unfolding e_def by blast
qed

lemma niceNumber_isNice: "0 < v \<Longrightarrow> isNice (niceNumber (Num v) r)"
  using niceNumber_positive[of v r] unfolding isNice_def by blast

lemma isNice_positive: "isNice t \<Longrightarrow> \<exists>x. t = Num x \<and> 0 < x"
  by (auto simp: isNice_def)

lemma niceBounds_tick:
  assumes "a < b" and "falsy numTicks \<or> (\<exists>t. numTicks = Num t \<and> 1 < t)"
  shows "isNice (niceTick (niceBounds (Num a) (Num b) numTicks))"
proof -
  define n where "n = (if falsy numTicks then Num 10 else numTicks)"
  from assms(2) obtain t where t: "n = Num t" "1 < t"
    by (auto simp: n_def)
  from assms(1) have w: "0 < b - a" by simp
  from isNice_positive[OF niceNumber_isNice[OF w, of False]]
  obtain x where x: "niceNumber (Num (b - a)) False = Num x" "0 < x" by blast
  have "0 < x / (t - 1)" using x(2) t(2) by simp
  from niceNumber_isNice[OF this, of True]
  have "isNice (niceNumber (js_div (Num x) (js_sub (Num t) (Num 1))) True)"
    using t(2) by simp
  then show ?thesis
    using assms(1) x(1) t(1)
    by (simp add: niceBounds_def niceTick_def Let_def n_def[symmetric])
qed

text \<open>
  C4, as amended. Under real arithmetic, for every positive finite \<open>v\<close>,
  \<^verbatim>\<open>niceNumber(v, round)\<close> is \<open>f\<close> times ten to the power \<open>floor(log10 v)\<close>, with
  \<open>f\<close> one of 1, 2, 5 and 10. For a finite axis that starts below its end, and a
  number of ticks that is falsy (it is then replaced by 10) or finite and greater than
  1, the tick that \<^verbatim>\<open>niceBounds\<close> returns is a nice value.
\<close>

theorem niceNumber_nice:
  "(0 < v \<longrightarrow>
      (\<exists>f. f \<in> {1, 2, 5, 10} \<and> niceNumber (Num v) r = Num (f * 10 powr real_of_int \<lfloor>log 10 v\<rfloor>)))
   \<and> (a < b \<and> (falsy numTicks \<or> (\<exists>t. numTicks = Num t \<and> 1 < t)) \<longrightarrow>
        isNice (niceTick (niceBounds (Num a) (Num b) numTicks)))"
  using niceNumber_positive[of v r] niceBounds_tick[of a b numTicks] by blast

lemma niceNumber_one: "niceNumber (Num 1) r = Num 1"
  by (simp add: niceNumber_def Let_def)

lemma not_isNice_PosInf: "\<not> isNice PosInf"
  by (simp add: isNice_def)

lemma niceNumber_ten: "niceNumber (Num 10) False = Num 10"
  by (simp add: niceNumber_def Let_def)

lemma niceBounds_example: "niceBounds (Num 0) (Num 10) (Num 11) = (Num 0, Num 10, Num 1)"
  by (simp add: niceBounds_def Let_def niceNumber_ten niceNumber_one)

theorem niceNumber_nice_witness:
  "(0::real) < 1
   \<and> (\<exists>f. f \<in> {1, 2, 5, 10} \<and> niceNumber (Num 1) True = Num (f * 10 powr real_of_int \<lfloor>log 10 1\<rfloor>))
   \<and> niceNumber (Num 1) True = Num 1
   \<and> (0::real) < 10 \<and> (1::real) < 11
   \<and> isNice (niceTick (niceBounds (Num 0) (Num 10) (Num 11)))
   \<and> niceBounds (Num 0) (Num 10) (Num 11) = (Num 0, Num 10, Num 1)"
proof -
  have a: "(0::real) < 1" by simp
  have b: "(0::real) < 10 \<and> (falsy (Num 11) \<or> (\<exists>t. Num 11 = Num t \<and> 1 < t))" by simp
  note t = niceNumber_nice[of 1 True 0 10 "Num 11"]
  show ?thesis using a b t niceBounds_example niceNumber_one[of True] by simp
qed

text \<open>
  C4, as stated, fails for one tick: \<^verbatim>\<open>niceBounds(0, 1, 1)\<close> divides the nice range
  by \<open>numTicks - 1 = 0\<close>, the tick is \<^verbatim>\<open>Infinity\<close> and both bounds are \<^verbatim>\<open>NaN\<close>,
  although the axis from 0 to 1 is not degenerate.
\<close>

theorem niceBounds_one_tick:
  "niceBounds (Num 0) (Num 1) (Num 1) = (NaN, NaN, PosInf) \<and> \<not> isNice PosInf"
  by (simp add: niceBounds_def Let_def niceNumber_one niceNumber_def infinity_def niceTick_def not_isNice_PosInf)

section \<open>Tools: the constructor\<close>

text \<open>
  C8. The measure module exports three names, and \<^verbatim>\<open>SizeMeasurement\<close> is not one of
  them: the binding imported by \<^verbatim>\<open>tools.js\<close> is \<^verbatim>\<open>undefined\<close>, and the
  constructor of \<^verbatim>\<open>Tools\<close> throws a \<^verbatim>\<open>TypeError\<close> for every viewer. It never
  returns an object.
\<close>

theorem Tools_throws:
  "map fst measure_exports = [''DistanceMeasurement'', ''PropertiesMeasurement'', ''AngleMeasurement'']
   \<and> import_measure ''SizeMeasurement'' = None
   \<and> Tools v = Inl TypeError
   \<and> (\<forall>t. Tools v \<noteq> Inr t)"
  by (simp add: Tools_def new_def import_measure_def measure_exports_def)

end
